theory Spec2Isabelle
  imports Complex_Main "HOL-Library.Word"
begin

section \<open>Motor controller (\<open>hyped::motor_control::Main\<close>)\<close>

text \<open>
  The motor controller is one thread. Everything it touches outside its own members is
  made explicit: the calls on the CAN communicator, the reads and writes of the shared
  \<open>Data\<close> registry and the wait on the barrier are recorded, in order, in a trace; what
  the outside answers (the state machine's snapshot, the communicator's failure flag,
  the velocities and torques the controllers report) is an input of the model, one
  answer per call. Logging is left out. Members lose the trailing underscore of the
  source (\<open>motor_failure_\<close> is \<open>motor_failure\<close>).
\<close>

subsection \<open>Data\<close>

type_synonym int32 = "32 word"
type_synonym int16 = "16 word"

text \<open>
  Modelled from the spec: the enumeration \<open>data::State\<close> is declared in a header that is
  not part of the sources at hand; the enumerators are the ten states of the pod state
  machine. \<open>kReady\<close> of \<open>data::State\<close> is written \<open>kReady_State\<close>, since
  \<open>data::ModuleStatus\<close> has a \<open>kReady\<close> too.
\<close>

datatype State =
    kIdle | kCalibrating | kReady_State | kAccelerating | kCruising | kDecelerating
  | kRunComplete | kExiting | kEmergencyBraking | kFailureStopped

datatype ModuleStatus = kStart | kInit | kReady | kCriticalFailure

record StateMachine =
  current_state :: State
  critical_failure :: bool

record MotorVelocity =
  velocity_1 :: int32
  velocity_2 :: int32
  velocity_3 :: int32
  velocity_4 :: int32

record MotorTorque =
  torque_1 :: int16
  torque_2 :: int16
  torque_3 :: int16
  torque_4 :: int16

text \<open>\<open>data::Motors\<close>, the published substructure; its fields carry the prefix \<open>data\<close>.\<close>

record Motors =
  module_status :: ModuleStatus
  data_velocity_1 :: int32
  data_velocity_2 :: int32
  data_velocity_3 :: int32
  data_velocity_4 :: int32
  data_torque_1 :: int16
  data_torque_2 :: int16
  data_torque_3 :: int16
  data_torque_4 :: int16

text \<open>The members of \<open>motor_control::Main\<close>.\<close>

record Main =
  state :: StateMachine
  motor_data :: Motors
  motor_velocity :: MotorVelocity
  motor_torque :: MotorTorque
  target_velocity :: int32
  target_torque :: int16
  run :: bool
  nav_calib :: bool
  motors_init :: bool
  motors_ready :: bool
  motor_failure :: bool
  all_motors_stopped :: bool

subsection \<open>The outside world\<close>

datatype Event =
    RegisterControllers
  | ConfigureControllers
  | PrepareMotors
  | HealthCheck
  | GetFailure bool
  | SendTargetVelocity int32
  | SendTargetTorque int16
  | RequestActualVelocity MotorVelocity
  | RequestActualTorque MotorTorque
  | QuickStopAll
  | EnterPreOperational
  | BarrierWait
  | GetStateMachineData StateMachine
  | GetNavigationData
  | SetMotorData Motors

text \<open>
  The answers of the outside, the \<open>k\<close>-th answer to the \<open>k\<close>-th call of each kind.
  \<open>'nav\<close> is \<open>NavigationType\<close>, the type of the measured velocity.
\<close>

record 'nav Environment =
  state_machine_feed :: "nat \<Rightarrow> StateMachine"
  failure_feed :: "nat \<Rightarrow> bool"
  navigation_feed :: "nat \<Rightarrow> 'nav"
  velocity_feed :: "nat \<Rightarrow> MotorVelocity"
  torque_feed :: "nat \<Rightarrow> MotorTorque"

text \<open>
  What the controller has done to the outside so far: the trace of its calls, the
  number of answers consumed of each kind, and the motor data last published.
\<close>

record World =
  trace :: "Event list"
  n_state :: nat
  n_failure :: nat
  n_navigation :: nat
  n_velocity :: nat
  n_torque :: nat
  motors_published :: Motors

definition emit :: "Event \<Rightarrow> World \<Rightarrow> World" where
  "emit e w = w\<lparr>trace := trace w @ [e]\<rparr>"

definition registerControllers :: "World \<Rightarrow> World" where
  "registerControllers w = emit RegisterControllers w"

definition configureControllers :: "World \<Rightarrow> World" where
  "configureControllers w = emit ConfigureControllers w"

definition comm_prepareMotors :: "World \<Rightarrow> World" where
  "comm_prepareMotors w = emit PrepareMotors w"

definition healthCheck :: "World \<Rightarrow> World" where
  "healthCheck w = emit HealthCheck w"

definition getFailure :: "'nav Environment \<Rightarrow> World \<Rightarrow> bool \<times> World" where
  "getFailure env w =
     (let f = failure_feed env (n_failure w)
      in (f, emit (GetFailure f) (w\<lparr>n_failure := Suc (n_failure w)\<rparr>)))"

definition sendTargetVelocity :: "int32 \<Rightarrow> World \<Rightarrow> World" where
  "sendTargetVelocity v w = emit (SendTargetVelocity v) w"

definition sendTargetTorque :: "int16 \<Rightarrow> World \<Rightarrow> World" where
  "sendTargetTorque t w = emit (SendTargetTorque t) w"

definition requestActualVelocity :: "'nav Environment \<Rightarrow> World \<Rightarrow> MotorVelocity \<times> World" where
  "requestActualVelocity env w =
     (let v = velocity_feed env (n_velocity w)
      in (v, emit (RequestActualVelocity v) (w\<lparr>n_velocity := Suc (n_velocity w)\<rparr>)))"

definition requestActualTorque :: "'nav Environment \<Rightarrow> World \<Rightarrow> MotorTorque \<times> World" where
  "requestActualTorque env w =
     (let t = torque_feed env (n_torque w)
      in (t, emit (RequestActualTorque t) (w\<lparr>n_torque := Suc (n_torque w)\<rparr>)))"

definition quickStopAll :: "World \<Rightarrow> World" where
  "quickStopAll w = emit QuickStopAll w"

definition enterPreOperational :: "World \<Rightarrow> World" where
  "enterPreOperational w = emit EnterPreOperational w"

definition barrier_wait :: "World \<Rightarrow> World" where
  "barrier_wait w = emit BarrierWait w"

definition getStateMachineData :: "'nav Environment \<Rightarrow> World \<Rightarrow> StateMachine \<times> World" where
  "getStateMachineData env w =
     (let sm = state_machine_feed env (n_state w)
      in (sm, emit (GetStateMachineData sm) (w\<lparr>n_state := Suc (n_state w)\<rparr>)))"

definition getNavigationData :: "'nav Environment \<Rightarrow> World \<Rightarrow> 'nav \<times> World" where
  "getNavigationData env w =
     (let nav_velocity = navigation_feed env (n_navigation w)
      in (nav_velocity, emit GetNavigationData (w\<lparr>n_navigation := Suc (n_navigation w)\<rparr>)))"

definition setMotorData :: "Motors \<Rightarrow> World \<Rightarrow> World" where
  "setMotorData md w = emit (SetMotorData md) (w\<lparr>motors_published := md\<rparr>)"

subsection \<open>The operations of the controller\<close>

text \<open>
  A loop of the source that may run forever takes fuel, the number of iterations it may
  still start. \<open>Returned\<close> is the state when the function returned; \<open>Running\<close> is the
  state reached when the fuel ran out with the loop still going, so that what the code
  did up to that point can be read off in both cases.
\<close>

datatype 'a Outcome = Returned 'a | Running 'a

fun outcome :: "'a Outcome \<Rightarrow> 'a" where
  "outcome (Returned x) = x"
| "outcome (Running x) = x"

fun returned :: "'a Outcome \<Rightarrow> bool" where
  "returned (Returned x) = True"
| "returned (Running x) = False"

definition updateMotorData :: "'nav Environment \<Rightarrow> Main \<times> World \<Rightarrow> Main \<times> World" where
  "updateMotorData env = (\<lambda>(s, w).
     let (v, w1) = requestActualVelocity env w;
         (t, w2) = requestActualTorque env w1;
         md = (motor_data s)\<lparr>
                data_velocity_1 := velocity_1 v, data_velocity_2 := velocity_2 v,
                data_velocity_3 := velocity_3 v, data_velocity_4 := velocity_4 v,
                data_torque_1 := torque_1 t, data_torque_2 := torque_2 t,
                data_torque_3 := torque_3 t, data_torque_4 := torque_4 t\<rparr>
     in (s\<lparr>motor_velocity := v, motor_torque := t, motor_data := md\<rparr>, setMotorData md w2))"

definition updateMotorFailure :: "Main \<times> World \<Rightarrow> Main \<times> World" where
  "updateMotorFailure = (\<lambda>(s, w).
     let md = (motor_data s)\<lparr>module_status := kCriticalFailure\<rparr>
     in (s\<lparr>motor_data := md, motor_failure := True\<rparr>, setMotorData md w))"

definition initMotors :: "'nav Environment \<Rightarrow> Main \<times> World \<Rightarrow> Main \<times> World" where
  "initMotors env = (\<lambda>(s, w).
     if \<not> motors_init s \<and> \<not> motor_failure s then
       let w1 = registerControllers w;
           w2 = configureControllers w1;
           (f, w3) = getFailure env w2
       in if f then updateMotorFailure (s, w3)
          else let md = (motor_data s)\<lparr>module_status := kInit\<rparr>
               in (s\<lparr>motor_data := md, motors_init := True\<rparr>, setMotorData md w3)
     else (s, w))"

definition prepareMotors :: "'nav Environment \<Rightarrow> Main \<times> World \<Rightarrow> Main \<times> World" where
  "prepareMotors env = (\<lambda>(s, w).
     if \<not> motors_ready s \<and> \<not> motor_failure s then
       let w1 = comm_prepareMotors w;
           w2 = healthCheck w1;
           (f, w3) = getFailure env w2
       in if f then updateMotorFailure (s, w3)
          else let md = (motor_data s)\<lparr>module_status := kReady\<rparr>
               in (s\<lparr>motor_data := md, motors_ready := True\<rparr>, setMotorData md w3)
     else (s, w))"

text \<open>
  \<open>return target_velocity_ += 100\<close> on an \<open>int32_t\<close>: the member is updated and its new
  value returned. The addition is the two's-complement one of the 32-bit word.
\<close>

definition accelerationVelocity :: "'nav \<Rightarrow> Main \<Rightarrow> int32 \<times> Main" where
  "accelerationVelocity velocity s =
     (let t = target_velocity s + 100 in (t, s\<lparr>target_velocity := t\<rparr>))"

definition decelerationVelocity :: "'nav \<Rightarrow> Main \<Rightarrow> int32 \<times> Main" where
  "decelerationVelocity velocity s =
     (let t = target_velocity s - 100 in (t, s\<lparr>target_velocity := t\<rparr>))"

definition accelerationTorque :: "'nav \<Rightarrow> int16" where
  "accelerationTorque velocity = 0"

definition decelerationTorque :: "'nav \<Rightarrow> int16" where
  "decelerationTorque velocity = 0"

definition velocities_zero :: "MotorVelocity \<Rightarrow> bool" where
  "velocities_zero v \<longleftrightarrow>
     velocity_1 v = 0 \<and> velocity_2 v = 0 \<and> velocity_3 v = 0 \<and> velocity_4 v = 0"

text \<open>The \<open>while (!all_motors_stopped_)\<close> loop of \<open>stopMotors\<close>.\<close>

fun stopMotors_loop :: "nat \<Rightarrow> 'nav Environment \<Rightarrow> Main \<times> World \<Rightarrow> (Main \<times> World) Outcome" where
  "stopMotors_loop 0 env (s, w) =
     (if \<not> all_motors_stopped s then Running (s, w) else Returned (s, w))"
| "stopMotors_loop (Suc n) env (s, w) =
     (if \<not> all_motors_stopped s then
        let (s1, w1) = updateMotorData env (s, w);
            s2 = (if velocities_zero (motor_velocity s1)
                  then s1\<lparr>all_motors_stopped := True\<rparr> else s1)
        in stopMotors_loop n env (s2, w1)
      else Returned (s, w))"

definition stopMotors :: "nat \<Rightarrow> 'nav Environment \<Rightarrow> Main \<times> World \<Rightarrow> (Main \<times> World) Outcome" where
  "stopMotors n env = (\<lambda>(s, w).
     case stopMotors_loop n env (s, quickStopAll w) of
       Running x \<Rightarrow> Running x
     | Returned x \<Rightarrow>
         let (s2, w2) = updateMotorData env x
         in Returned (s2, enterPreOperational w2))"

text \<open>
  The \<open>while (state_.current_state == kAccelerating)\<close> loop. \<open>stopMotors\<close> is followed
  by \<open>break\<close> and the loop is the last statement of the function, so the outcome of
  \<open>stopMotors\<close> is the outcome of the loop.
\<close>

fun accelerate_loop :: "nat \<Rightarrow> 'nav Environment \<Rightarrow> Main \<times> World \<Rightarrow> (Main \<times> World) Outcome" where
  "accelerate_loop 0 env (s, w) =
     (if current_state (state s) = kAccelerating then Running (s, w) else Returned (s, w))"
| "accelerate_loop (Suc n) env (s, w) =
     (if current_state (state s) = kAccelerating then
        let (sm, w1) = getStateMachineData env w;
            s1 = s\<lparr>state := sm\<rparr>
        in if critical_failure sm then stopMotors n env (s1, w1)
           else
             let w2 = healthCheck w1;
                 (f, w3) = getFailure env w2
             in if f then stopMotors n env (updateMotorFailure (s1, w3))
                else
                  let (nav_velocity, w4) = getNavigationData env w3;
                      (tv, s2) = accelerationVelocity nav_velocity s1;
                      s3 = s2\<lparr>target_velocity := tv\<rparr>;
                      s4 = s3\<lparr>target_torque := accelerationTorque nav_velocity\<rparr>;
                      w5 = sendTargetVelocity (target_velocity s4) w4;
                      w6 = sendTargetTorque (target_torque s4) w5
                  in accelerate_loop n env (updateMotorData env (s4, w6))
      else Returned (s, w))"

text \<open>
  \<open>post_calibration_barrier_.wait()\<close> is recorded as an event; that it may block is not
  modelled.
\<close>

definition accelerateMotors :: "nat \<Rightarrow> 'nav Environment \<Rightarrow> Main \<times> World \<Rightarrow> (Main \<times> World) Outcome" where
  "accelerateMotors n env = (\<lambda>(s, w).
     let (s1, w1) = (if \<not> nav_calib s then (s\<lparr>nav_calib := True\<rparr>, barrier_wait w) else (s, w))
     in accelerate_loop n env (s1, w1))"

fun decelerate_loop :: "nat \<Rightarrow> 'nav Environment \<Rightarrow> Main \<times> World \<Rightarrow> (Main \<times> World) Outcome" where
  "decelerate_loop 0 env (s, w) =
     (if current_state (state s) = kDecelerating then Running (s, w) else Returned (s, w))"
| "decelerate_loop (Suc n) env (s, w) =
     (if current_state (state s) = kDecelerating then
        let (sm, w1) = getStateMachineData env w;
            s1 = s\<lparr>state := sm\<rparr>
        in if critical_failure sm then stopMotors n env (s1, w1)
           else
             let w2 = healthCheck w1;
                 (f, w3) = getFailure env w2
             in if f then stopMotors n env (updateMotorFailure (s1, w3))
                else
                  let (nav_velocity, w4) = getNavigationData env w3;
                      (tv, s2) = decelerationVelocity nav_velocity s1;
                      s3 = s2\<lparr>target_velocity := tv\<rparr>;
                      s4 = s3\<lparr>target_torque := decelerationTorque nav_velocity\<rparr>;
                      w5 = sendTargetVelocity (target_velocity s4) w4;
                      w6 = sendTargetTorque (target_torque s4) w5
                  in decelerate_loop n env (updateMotorData env (s4, w6))
      else Returned (s, w))"

definition decelerateMotors :: "nat \<Rightarrow> 'nav Environment \<Rightarrow> Main \<times> World \<Rightarrow> (Main \<times> World) Outcome" where
  "decelerateMotors n env = decelerate_loop n env"

subsection \<open>Notions used to state the properties of the controller\<close>

text \<open>What a call has appended to the trace.\<close>

definition new_events :: "World \<Rightarrow> World \<Rightarrow> Event list" where
  "new_events w w' = drop (length (trace w)) (trace w')"

text \<open>
  The calls \<open>stopMotors\<close> may make: on the communicator and to publish the motor data.
  None of them is a wait on the barrier or a read of another module's data.
\<close>

fun stopMotors_call :: "Event \<Rightarrow> bool" where
  "stopMotors_call QuickStopAll = True"
| "stopMotors_call (RequestActualVelocity v) = True"
| "stopMotors_call (RequestActualTorque t) = True"
| "stopMotors_call (SetMotorData md) = True"
| "stopMotors_call EnterPreOperational = True"
| "stopMotors_call e = False"

text \<open>The first refresh at which all four controllers report zero is the \<open>k\<close>-th.\<close>

definition first_zero_at :: "'nav Environment \<Rightarrow> nat \<Rightarrow> nat \<Rightarrow> bool" where
  "first_zero_at env i k \<longleftrightarrow>
     (\<forall>j<k. \<not> velocities_zero (velocity_feed env (i + j)))
     \<and> velocities_zero (velocity_feed env (i + k))"

text \<open>The assignment \<open>all_motors_stopped_ = true\<close>.\<close>

definition latch_stopped :: "Main \<times> World \<Rightarrow> Main \<times> World" where
  "latch_stopped = (\<lambda>(s, w). (s\<lparr>all_motors_stopped := True\<rparr>, w))"

text \<open>
  What the controller knows, within one iteration of the loop of \<open>accelerateMotors\<close>,
  when it makes a call: nothing yet (\<open>Unchecked\<close>), that the snapshot read in this
  iteration shows no critical failure (\<open>NoCriticalFailure\<close>), that moreover the health
  check of this iteration reported no failure (\<open>Cleared\<close>), or that a critical failure
  or a motor failure was seen (\<open>Stopping\<close>). A trace is guarded when a target velocity or
  a target torque is sent only in \<open>Cleared\<close>, and when no snapshot is read again, that is
  no further iteration starts, once \<open>Stopping\<close> is reached.
\<close>

datatype Clearance = Unchecked | NoCriticalFailure | Cleared | Stopping

fun guard_step :: "Clearance \<Rightarrow> Event \<Rightarrow> Clearance option" where
  "guard_step c (GetStateMachineData sm) =
     (if c = Stopping then None
      else if critical_failure sm then Some Stopping else Some NoCriticalFailure)"
| "guard_step c (GetFailure f) =
     (if c = Stopping \<or> f then Some Stopping
      else if c = NoCriticalFailure then Some Cleared else Some c)"
| "guard_step c (SendTargetVelocity v) = (if c = Cleared then Some Cleared else None)"
| "guard_step c (SendTargetTorque t) = (if c = Cleared then Some Cleared else None)"
| "guard_step c e = Some c"

fun setpoints_guarded :: "Clearance \<Rightarrow> Event list \<Rightarrow> bool" where
  "setpoints_guarded c [] = True"
| "setpoints_guarded c (e # es) =
     (case guard_step c e of None \<Rightarrow> False | Some c' \<Rightarrow> setpoints_guarded c' es)"

fun zero_torque_setpoint :: "Event \<Rightarrow> bool" where
  "zero_torque_setpoint (SendTargetTorque t) = (t = 0)"
| "zero_torque_setpoint e = True"

text \<open>
  The target velocities computed on consecutive ticks of the control loop, one tick per
  measured velocity: \<open>target_velocity_ = accelerationVelocity(nav_.velocity)\<close>.
\<close>

fun acceleration_ticks :: "'nav list \<Rightarrow> Main \<Rightarrow> int32 list" where
  "acceleration_ticks [] s = []"
| "acceleration_ticks (v # vs) s =
     (let (tv, s1) = accelerationVelocity v s
      in tv # acceleration_ticks vs (s1\<lparr>target_velocity := tv\<rparr>))"

fun deceleration_ticks :: "'nav list \<Rightarrow> Main \<Rightarrow> int32 list" where
  "deceleration_ticks [] s = []"
| "deceleration_ticks (v # vs) s =
     (let (tv, s1) = decelerationVelocity v s
      in tv # deceleration_ticks vs (s1\<lparr>target_velocity := tv\<rparr>))"

section \<open>Sensor aggregator (\<open>hyped::sensors::Main\<close>)\<close>

text \<open>
  The records have the members that \<open>sensors/main.cpp\<close> and \<open>fake_batteries.cpp\<close>
  access. Timestamps are compared for equality only and are natural numbers; the
  voltage, current and temperature of a battery are integers. The payload of a data
  point (\<open>value\<close> in the source, \<open>val\<close> here) is not looked at and stays a type
  parameter. A \<open>std::array\<close> is a list.
\<close>

record 'a DataPoint =
  timestamp :: nat
  val :: 'a

record 'v Imu =
  acc :: "'v DataPoint"
  gyr :: "'v DataPoint"

record ('v, 'p) Sensors =
  imu :: "'v Imu list"
  proxi_front :: "'p DataPoint"
  proxi_back :: "'p DataPoint"

definition kNumImus :: nat where
  "kNumImus = 8"

record Battery =
  voltage :: int
  current :: int
  temperature :: int

text \<open>
  Modelled from the spec: the declaration of \<open>data::Batteries\<close> is missing from the
  sources at hand; it holds a low-power and a high-power battery set. The source
  accesses \<open>low_power_batteries\<close> only.
\<close>

record Batteries =
  low_power_batteries :: "Battery list"
  high_power_batteries :: "Battery list"

text \<open>The members of \<open>sensors::Main\<close>: the working buffers and their previous values.\<close>

record ('v, 'p) Sensors_Main =
  sensors :: "('v, 'p) Sensors"
  old_sensors :: "('v, 'p) Sensors"
  batteries :: Batteries
  old_batteries :: Batteries

text \<open>The registry \<open>data::Data\<close>, with the list of the publications made so far.\<close>

datatype ('v, 'p) Publication =
    SetSensorsData "('v, 'p) Sensors"
  | SetBatteryData Batteries

record ('v, 'p) Data =
  sensors_data :: "('v, 'p) Sensors"
  battery_data :: Batteries
  publications :: "('v, 'p) Publication list"

definition setSensorsData :: "('v, 'p) Sensors \<Rightarrow> ('v, 'p) Data \<Rightarrow> ('v, 'p) Data" where
  "setSensorsData x d = d\<lparr>sensors_data := x, publications := publications d @ [SetSensorsData x]\<rparr>"

definition setBatteryData :: "Batteries \<Rightarrow> ('v, 'p) Data \<Rightarrow> ('v, 'p) Data" where
  "setBatteryData x d = d\<lparr>battery_data := x, publications := publications d @ [SetBatteryData x]\<rparr>"

text \<open>The \<open>for\<close> loop of \<open>updateImu\<close>, from index \<open>i\<close> on.\<close>

function updateImu_from :: "nat \<Rightarrow> ('v, 'p) Sensors_Main \<Rightarrow> bool" where
  "updateImu_from i s =
     (if i < kNumImus then
        (if timestamp (acc (imu (old_sensors s) ! i)) = timestamp (acc (imu (sensors s) ! i))
         then False
         else updateImu_from (i + 1) s)
      else True)"
  by pat_completeness auto
termination
  by (relation "measure (\<lambda>(i, s). kNumImus - i)") auto

definition updateImu :: "('v, 'p) Sensors_Main \<Rightarrow> bool" where
  "updateImu s = updateImu_from 0 s"

definition updateProxi :: "('v, 'p) Sensors_Main \<Rightarrow> bool" where
  "updateProxi s =
     (if timestamp (proxi_front (old_sensors s)) = timestamp (proxi_front (sensors s)) then False
      else if timestamp (proxi_back (old_sensors s)) = timestamp (proxi_back (sensors s)) then False
      else True)"

text \<open>
  The \<open>for\<close> loop of \<open>updateBattery\<close>, from index \<open>i\<close> on. The constant
  \<open>data::Batteries::kNumLPBatteries\<close> is declared in the missing header and is a
  parameter.
\<close>

function updateBattery_from :: "nat \<Rightarrow> nat \<Rightarrow> ('v, 'p) Sensors_Main \<Rightarrow> bool" where
  "updateBattery_from kNumLPBatteries i s =
     (if i < kNumLPBatteries then
        (if voltage (low_power_batteries (old_batteries s) ! i)
              \<noteq> voltage (low_power_batteries (batteries s) ! i)
            \<or> temperature (low_power_batteries (old_batteries s) ! i)
              \<noteq> temperature (low_power_batteries (batteries s) ! i)
         then True
         else updateBattery_from kNumLPBatteries (i + 1) s)
      else False)"
  by pat_completeness auto
termination
  by (relation "measure (\<lambda>(n, i, s). n - i)") auto

definition updateBattery :: "nat \<Rightarrow> ('v, 'p) Sensors_Main \<Rightarrow> bool" where
  "updateBattery kNumLPBatteries s = updateBattery_from kNumLPBatteries 0 s"

text \<open>
  One iteration of the \<open>while (1)\<close> loop of \<open>run\<close>, on the buffers as the managers
  have left them; \<open>yield\<close> does nothing to the state.
\<close>

definition run_cycle ::
  "nat \<Rightarrow> ('v, 'p) Sensors_Main \<times> ('v, 'p) Data \<Rightarrow> ('v, 'p) Sensors_Main \<times> ('v, 'p) Data" where
  "run_cycle kNumLPBatteries = (\<lambda>(s, d).
     let (s1, d1) = (if updateImu s \<or> updateProxi s
                     then (s\<lparr>old_sensors := sensors s\<rparr>, setSensorsData (sensors s) d)
                     else (s, d));
         (s2, d2) = (if updateBattery kNumLPBatteries s1
                     then (s1\<lparr>old_batteries := batteries s1\<rparr>, setBatteryData (batteries s1) d1)
                     else (s1, d1))
     in (s2, d2))"

text \<open>Whether the step from registry \<open>d\<close> to \<open>d'\<close> has published a snapshot.\<close>

fun is_sensors_publication :: "('v, 'p) Publication \<Rightarrow> bool" where
  "is_sensors_publication (SetSensorsData x) = True"
| "is_sensors_publication (SetBatteryData x) = False"

definition sensors_published :: "('v, 'p) Data \<Rightarrow> ('v, 'p) Data \<Rightarrow> bool" where
  "sensors_published d d' \<longleftrightarrow>
     list_ex is_sensors_publication (drop (length (publications d)) (publications d'))"


text \<open>
  What can happen to the members of \<open>sensors::Main\<close>. The constructor hands
  \<open>sensors_.imu\<close> to the IMU manager, \<open>sensors_.proxi_front\<close> and \<open>sensors_.proxi_back\<close>
  to the two proximity managers and \<open>batteries_.low_power_batteries\<close> to the low-power
  battery manager, and then copies the buffers to their previous values. The managers
  are not among the sources at hand: they write what they like, when they like, to the
  members they were handed. Nothing else writes the members but \<open>run\<close>. A history of
  the aggregator is the constructor, on whatever the buffers hold at first, followed by
  writes of the managers and cycles of \<open>run\<close> in any order.
\<close>

definition Sensors_Main_constructor ::
  "('v, 'p) Sensors \<Rightarrow> Batteries \<Rightarrow> ('v, 'p) Sensors_Main" where
  "Sensors_Main_constructor sensors0 batteries0 =
     \<lparr>sensors = sensors0, old_sensors = sensors0,
      batteries = batteries0, old_batteries = batteries0\<rparr>"

definition managers_write ::
  "'v Imu list \<Rightarrow> 'p DataPoint \<Rightarrow> 'p DataPoint \<Rightarrow> Battery list
     \<Rightarrow> ('v, 'p) Sensors_Main \<Rightarrow> ('v, 'p) Sensors_Main" where
  "managers_write imus front back lp s =
     s\<lparr>sensors := (sensors s)\<lparr>imu := imus, proxi_front := front, proxi_back := back\<rparr>,
       batteries := (batteries s)\<lparr>low_power_batteries := lp\<rparr>\<rparr>"

datatype ('v, 'p) Step =
    ManagersWrite "'v Imu list" "'p DataPoint" "'p DataPoint" "Battery list"
  | RunCycle

fun history ::
  "nat \<Rightarrow> ('v, 'p) Step list \<Rightarrow> ('v, 'p) Sensors_Main \<times> ('v, 'p) Data
     \<Rightarrow> ('v, 'p) Sensors_Main \<times> ('v, 'p) Data" where
  "history kNumLPBatteries [] (s, d) = (s, d)"
| "history kNumLPBatteries (ManagersWrite imus front back lp # steps) (s, d) =
     history kNumLPBatteries steps (managers_write imus front back lp s, d)"
| "history kNumLPBatteries (RunCycle # steps) (s, d) =
     history kNumLPBatteries steps (run_cycle kNumLPBatteries (s, d))"

section \<open>Navigation (\<open>hyped::navigation::Navigation\<close>)\<close>

text \<open>\<open>constexpr NavigationType kEmergencyDeceleration = 24\<close>, in \<open>m/s^2\<close>.\<close>

definition kEmergencyDeceleration :: real where
  "kEmergencyDeceleration = 24"

text \<open>
  Modelled from the spec: \<open>navigation.hpp\<close> declares \<open>getEmergencyBrakingDistance\<close>,
  its body is missing from the sources at hand. The emergency braking distance is
  the square of the forward velocity over twice the emergency deceleration.
  \<open>NavigationType\<close> is taken as the reals, so rounding is not modelled.
\<close>

definition getEmergencyBrakingDistance :: "real \<Rightarrow> real" where
  "getEmergencyBrakingDistance velocity = velocity * velocity / (2 * kEmergencyDeceleration)"

section \<open>Concrete inputs\<close>

text \<open>
  A controller that is initialised and ready, in pod state \<open>st\<close> with target velocity
  \<open>tv\<close>; a world in which nothing has happened yet; and an outside in which the state
  machine stays in \<open>st\<close> and raises \<open>critical_failure\<close> from its \<open>k\<close>-th snapshot on, the
  communicator reports no failure, and the motors report \<open>100\<close> RPM twice and then stand
  still.
\<close>

definition zero_Motors :: Motors where
  "zero_Motors = \<lparr>module_status = kStart,
     data_velocity_1 = 0, data_velocity_2 = 0, data_velocity_3 = 0, data_velocity_4 = 0,
     data_torque_1 = 0, data_torque_2 = 0, data_torque_3 = 0, data_torque_4 = 0\<rparr>"

definition all_velocities :: "int32 \<Rightarrow> MotorVelocity" where
  "all_velocities v = \<lparr>velocity_1 = v, velocity_2 = v, velocity_3 = v, velocity_4 = v\<rparr>"

definition zero_torques :: MotorTorque where
  "zero_torques = \<lparr>torque_1 = 0, torque_2 = 0, torque_3 = 0, torque_4 = 0\<rparr>"

definition example_Main :: "State \<Rightarrow> int32 \<Rightarrow> Main" where
  "example_Main st tv =
     \<lparr>state = \<lparr>current_state = st, critical_failure = False\<rparr>,
      motor_data = zero_Motors\<lparr>module_status := kReady\<rparr>,
      motor_velocity = all_velocities 0, motor_torque = zero_torques,
      target_velocity = tv, target_torque = 0, run = True, nav_calib = False,
      motors_init = True, motors_ready = True, motor_failure = False,
      all_motors_stopped = False\<rparr>"

definition example_World :: World where
  "example_World = \<lparr>trace = [], n_state = 0, n_failure = 0, n_navigation = 0,
     n_velocity = 0, n_torque = 0, motors_published = zero_Motors\<rparr>"

definition example_Environment :: "State \<Rightarrow> nat \<Rightarrow> nat Environment" where
  "example_Environment st k =
     \<lparr>state_machine_feed = (\<lambda>i. \<lparr>current_state = st, critical_failure = (k \<le> i)\<rparr>),
      failure_feed = (\<lambda>i. False),
      navigation_feed = (\<lambda>i. 0),
      velocity_feed = (\<lambda>i. if i < 2 then all_velocities 100 else all_velocities 0),
      torque_feed = (\<lambda>i. zero_torques)\<rparr>"

text \<open>
  Buffers of the aggregator: eight IMUs with the given timestamps, two low-power
  batteries and one high-power battery.
\<close>

definition example_Imu :: "nat \<Rightarrow> unit Imu" where
  "example_Imu t = \<lparr>acc = \<lparr>timestamp = t, val = ()\<rparr>, gyr = \<lparr>timestamp = t, val = ()\<rparr>\<rparr>"

definition example_Sensors :: "nat list \<Rightarrow> nat \<Rightarrow> nat \<Rightarrow> (unit, unit) Sensors" where
  "example_Sensors ts f b =
     \<lparr>imu = map example_Imu ts,
      proxi_front = \<lparr>timestamp = f, val = ()\<rparr>,
      proxi_back = \<lparr>timestamp = b, val = ()\<rparr>\<rparr>"

definition example_Battery :: "int \<Rightarrow> Battery" where
  "example_Battery v = \<lparr>voltage = v, current = 200, temperature = 30\<rparr>"

definition example_Batteries :: "int \<Rightarrow> int \<Rightarrow> Batteries" where
  "example_Batteries lp hp =
     \<lparr>low_power_batteries = [example_Battery lp, example_Battery lp],
      high_power_batteries = [example_Battery hp]\<rparr>"

definition example_Data :: "(unit, unit) Data" where
  "example_Data = \<lparr>sensors_data = example_Sensors [0, 0, 0, 0, 0, 0, 0, 0] 0 0,
     battery_data = example_Batteries 170 1100, publications = []\<rparr>"

text \<open>All eight IMUs have new readings, the proximity banks have none.\<close>

definition imu_only_cycle :: "(unit, unit) Sensors_Main" where
  "imu_only_cycle =
     \<lparr>sensors = example_Sensors [6, 6, 6, 6, 6, 6, 6, 6] 5 5,
      old_sensors = example_Sensors [5, 5, 5, 5, 5, 5, 5, 5] 5 5,
      batteries = example_Batteries 170 1100,
      old_batteries = example_Batteries 170 1100\<rparr>"

text \<open>The fourth IMU is stuck, the seven others and both proximity banks have new readings.\<close>

definition stuck_imu_cycle :: "(unit, unit) Sensors_Main" where
  "stuck_imu_cycle =
     \<lparr>sensors = example_Sensors [6, 6, 6, 5, 6, 6, 6, 6] 6 6,
      old_sensors = example_Sensors [5, 5, 5, 5, 5, 5, 5, 5] 5 5,
      batteries = example_Batteries 170 1100,
      old_batteries = example_Batteries 170 1100\<rparr>"

text \<open>The voltage of the low-power batteries has changed.\<close>

definition low_power_cycle :: "(unit, unit) Sensors_Main" where
  "low_power_cycle =
     \<lparr>sensors = example_Sensors [5, 5, 5, 5, 5, 5, 5, 5] 5 5,
      old_sensors = example_Sensors [5, 5, 5, 5, 5, 5, 5, 5] 5 5,
      batteries = example_Batteries 165 1100,
      old_batteries = example_Batteries 170 1100\<rparr>"

text \<open>
  The aggregator as constructed on buffers whose timestamps are all \<open>5\<close>, and two
  writes of the managers: new readings of all eight IMUs and nothing else, and new
  voltages of the two low-power batteries and nothing else.
\<close>

definition example_constructed :: "(unit, unit) Sensors_Main" where
  "example_constructed =
     Sensors_Main_constructor (example_Sensors [5, 5, 5, 5, 5, 5, 5, 5] 5 5)
       (example_Batteries 170 1100)"

definition imu_write :: "(unit, unit) Step" where
  "imu_write =
     ManagersWrite (map example_Imu [6, 6, 6, 6, 6, 6, 6, 6])
       \<lparr>timestamp = 5, val = ()\<rparr> \<lparr>timestamp = 5, val = ()\<rparr>
       [example_Battery 170, example_Battery 170]"

definition low_power_write :: "(unit, unit) Step" where
  "low_power_write =
     ManagersWrite (map example_Imu [5, 5, 5, 5, 5, 5, 5, 5])
       \<lparr>timestamp = 5, val = ()\<rparr> \<lparr>timestamp = 5, val = ()\<rparr>
       [example_Battery 165, example_Battery 165]"

section \<open>Properties of the motor controller\<close>

subsection \<open>Calls and traces\<close>

lemmas world_defs = emit_def registerControllers_def configureControllers_def
  comm_prepareMotors_def healthCheck_def getFailure_def sendTargetVelocity_def
  sendTargetTorque_def requestActualVelocity_def requestActualTorque_def quickStopAll_def
  enterPreOperational_def barrier_wait_def getStateMachineData_def getNavigationData_def
  setMotorData_def

lemmas example_defs = zero_Motors_def all_velocities_def zero_torques_def example_Main_def
  example_World_def example_Environment_def

lemma new_events_append: "trace w' = trace w @ es \<Longrightarrow> new_events w w' = es"
  by (simp add: new_events_def)

lemma updateMotorData_trace:
  "trace (snd (updateMotorData env (s, w))) =
     trace w @ [RequestActualVelocity (velocity_feed env (n_velocity w)),
                RequestActualTorque (torque_feed env (n_torque w)),
                SetMotorData (motor_data (fst (updateMotorData env (s, w))))]"
  by (simp add: updateMotorData_def world_defs Let_def)

lemma updateMotorData_fields:
  "motor_velocity (fst (updateMotorData env (s, w))) = velocity_feed env (n_velocity w)"
  "all_motors_stopped (fst (updateMotorData env (s, w))) = all_motors_stopped s"
  "motor_failure (fst (updateMotorData env (s, w))) = motor_failure s"
  "state (fst (updateMotorData env (s, w))) = state s"
  "target_torque (fst (updateMotorData env (s, w))) = target_torque s"
  "target_velocity (fst (updateMotorData env (s, w))) = target_velocity s"
  "n_velocity (snd (updateMotorData env (s, w))) = Suc (n_velocity w)"
  "n_torque (snd (updateMotorData env (s, w))) = Suc (n_torque w)"
  "n_state (snd (updateMotorData env (s, w))) = n_state w"
  "n_navigation (snd (updateMotorData env (s, w))) = n_navigation w"
  "n_failure (snd (updateMotorData env (s, w))) = n_failure w"
  by (simp_all add: updateMotorData_def world_defs Let_def)

lemma stopMotors_loop_events:
  "\<exists>es. trace (snd (outcome (stopMotors_loop n env (s, w)))) = trace w @ es
        \<and> list_all stopMotors_call es"
proof (induction n arbitrary: s w)
  case 0
  show ?case by simp
next
  case (Suc n)
  show ?case
  proof (cases "all_motors_stopped s")
    case True
    then show ?thesis by simp
  next
    case False
    obtain s1 w1 where u: "updateMotorData env (s, w) = (s1, w1)" by fastforce
    define s2 where "s2 = (if velocities_zero (motor_velocity s1)
                  then s1\<lparr>all_motors_stopped := True\<rparr> else s1)"
    from Suc.IH [of s2 w1] obtain es where
      es: "trace (snd (outcome (stopMotors_loop n env (s2, w1)))) = trace w1 @ es"
          "list_all stopMotors_call es" by blast
    have t1: "trace w1 = trace w @ [RequestActualVelocity (velocity_feed env (n_velocity w)),
                RequestActualTorque (torque_feed env (n_torque w)),
                SetMotorData (motor_data s1)]"
      using updateMotorData_trace [of env s w] u by simp
    have "stopMotors_loop (Suc n) env (s, w) = stopMotors_loop n env (s2, w1)"
      using False u by (simp add: s2_def)
    then show ?thesis using es t1 by simp
  qed
qed

lemma stopMotors_events:
  "\<exists>es. trace (snd (outcome (stopMotors n env (s, w)))) = trace w @ es
        \<and> list_all stopMotors_call es"
proof -
  from stopMotors_loop_events [of n env s "quickStopAll w"] obtain es where
    es: "trace (snd (outcome (stopMotors_loop n env (s, quickStopAll w)))) = trace (quickStopAll w) @ es"
        "list_all stopMotors_call es" by blast
  have q: "trace (quickStopAll w) = trace w @ [QuickStopAll]" by (simp add: world_defs)
  show ?thesis
  proof (cases "stopMotors_loop n env (s, quickStopAll w)")
    case (Running x)
    then show ?thesis using es q by (simp add: stopMotors_def)
  next
    case (Returned x)
    obtain s1 w1 where x: "x = (s1, w1)" by fastforce
    obtain s2 w2 where u: "updateMotorData env (s1, w1) = (s2, w2)" by fastforce
    have "trace w2 = trace w1 @ [RequestActualVelocity (velocity_feed env (n_velocity w1)),
                RequestActualTorque (torque_feed env (n_torque w1)),
                SetMotorData (motor_data s2)]"
      using updateMotorData_trace [of env s1 w1] u by simp
    then show ?thesis using es q Returned x u
      by (simp add: stopMotors_def enterPreOperational_def emit_def)
  qed
qed

lemma funpow_updateMotorData_fields:
  "all_motors_stopped (fst ((updateMotorData env ^^ m) (s, w))) = all_motors_stopped s"
  "n_velocity (snd ((updateMotorData env ^^ m) (s, w))) = n_velocity w + m"
proof (induction m)
  case 0
  { case 1 show ?case by simp next case 2 show ?case by simp }
next
  case (Suc m)
  obtain s1 w1 where x: "(updateMotorData env ^^ m) (s, w) = (s1, w1)" by fastforce
  { case 1 show ?case using Suc.IH(1) x by (simp add: updateMotorData_fields) 
  next case 2 show ?case using Suc.IH(2) x by (simp add: updateMotorData_fields) }
qed

lemma stopMotors_loop_running:
  "\<not> all_motors_stopped s \<Longrightarrow>
   \<forall>j<m. \<not> velocities_zero (velocity_feed env (n_velocity w + j)) \<Longrightarrow>
   stopMotors_loop m env (s, w) = Running ((updateMotorData env ^^ m) (s, w))"
proof (induction m arbitrary: s w)
  case 0
  then show ?case by simp
next
  case (Suc m)
  obtain s1 w1 where u: "updateMotorData env (s, w) = (s1, w1)" by fastforce
  have v: "motor_velocity s1 = velocity_feed env (n_velocity w)"
    and a: "\<not> all_motors_stopped s1" and n: "n_velocity w1 = Suc (n_velocity w)"
    using updateMotorData_fields [of env s w] u Suc.prems(1) by simp_all
  have nz: "\<not> velocities_zero (motor_velocity s1)"
    using Suc.prems(2) v by (metis add.right_neutral zero_less_Suc)
  have rest: "\<forall>j<m. \<not> velocities_zero (velocity_feed env (n_velocity w1 + j))"
    using Suc.prems(2) n by (metis Suc_less_eq add_Suc_shift)
  have "stopMotors_loop (Suc m) env (s, w) = stopMotors_loop m env (s1, w1)"
    using Suc.prems(1) u nz by simp
  also have "\<dots> = Running ((updateMotorData env ^^ m) (s1, w1))"
    by (rule Suc.IH [OF a rest])
  also have "(updateMotorData env ^^ m) (s1, w1) = (updateMotorData env ^^ Suc m) (s, w)"
    using u by (simp add: funpow_swap1)
  finally show ?case .
qed

lemma stopMotors_loop_returned:
  "\<not> all_motors_stopped s \<Longrightarrow> first_zero_at env (n_velocity w) k \<Longrightarrow> k < m \<Longrightarrow>
   stopMotors_loop m env (s, w) =
     Returned (latch_stopped ((updateMotorData env ^^ Suc k) (s, w)))"
proof (induction k arbitrary: s w m)
  case 0
  obtain m' where m: "m = Suc m'" using "0.prems"(3) by (cases m) auto
  obtain s1 w1 where u: "updateMotorData env (s, w) = (s1, w1)" by fastforce
  have v: "motor_velocity s1 = velocity_feed env (n_velocity w)"
    using updateMotorData_fields [of env s w] u by simp
  have z: "velocities_zero (motor_velocity s1)"
    using "0.prems"(2) v by (simp add: first_zero_at_def)
  have "stopMotors_loop m env (s, w) = stopMotors_loop m' env (s1\<lparr>all_motors_stopped := True\<rparr>, w1)"
    using "0.prems"(1) u z m by simp
  also have "\<dots> = Returned (s1\<lparr>all_motors_stopped := True\<rparr>, w1)"
    by (cases m') simp_all
  finally show ?case using u by (simp add: latch_stopped_def)
next
  case (Suc k)
  obtain m' where m: "m = Suc m'" and km: "k < m'" using Suc.prems(3) by (cases m) auto
  obtain s1 w1 where u: "updateMotorData env (s, w) = (s1, w1)" by fastforce
  have v: "motor_velocity s1 = velocity_feed env (n_velocity w)"
    and a: "\<not> all_motors_stopped s1" and n: "n_velocity w1 = Suc (n_velocity w)"
    using updateMotorData_fields [of env s w] u Suc.prems(1) by simp_all
  have nz: "\<not> velocities_zero (motor_velocity s1)"
    using Suc.prems(2) v unfolding first_zero_at_def by (metis add.right_neutral zero_less_Suc)
  have fz: "first_zero_at env (n_velocity w1) k"
    using Suc.prems(2) n unfolding first_zero_at_def
    by (metis Suc_less_eq add_Suc_shift)
  have "stopMotors_loop m env (s, w) = stopMotors_loop m' env (s1, w1)"
    using Suc.prems(1) u nz m by simp
  also have "\<dots> = Returned (latch_stopped ((updateMotorData env ^^ Suc k) (s1, w1)))"
    by (rule Suc.IH [OF a fz km])
  also have "(updateMotorData env ^^ Suc k) (s1, w1) = (updateMotorData env ^^ Suc (Suc k)) (s, w)"
    using u funpow_swap1 [of "updateMotorData env" "Suc k" "(s, w)"] by simp
  finally show ?case .
qed

lemma first_zero_at_least:
  assumes "\<exists>j<n. velocities_zero (velocity_feed env (i + j))"
  shows "\<exists>k<n. first_zero_at env i k"
proof -
  define k where "k = (LEAST j. velocities_zero (velocity_feed env (i + j)))"
  from assms obtain j where j: "j < n" "velocities_zero (velocity_feed env (i + j))" by blast
  have z: "velocities_zero (velocity_feed env (i + k))"
    unfolding k_def using j(2) by (rule LeastI)
  have le: "k \<le> j" unfolding k_def using j(2) by (rule Least_le)
  have "\<forall>m<k. \<not> velocities_zero (velocity_feed env (i + m))"
    unfolding k_def using not_less_Least by blast
  then have "first_zero_at env i k" using z by (simp add: first_zero_at_def)
  moreover have "k < n" using le j(1) by simp
  ultimately show ?thesis by blast
qed

subsection \<open>The stop procedure\<close>

text \<open>
  Claim C1. A call of \<open>stopMotors\<close> with the latch \<open>all_motors_stopped\<close> not set first
  issues quick-stop, then refreshes the actual velocities into the registry again and
  again; it sets the latch exactly when a refresh reports four zero velocities (within
  \<open>n\<close> iterations: exactly when one of the first \<open>n\<close> refreshes does), and only then
  leaves the loop, publishes the motor data once more, commands pre-operational and
  returns. If the first all-zero refresh is the \<open>k\<close>-th, the outcome is: quick-stop,
  \<open>k + 1\<close> refreshes, the latch, one refresh, pre-operational. Every call it makes is
  one of quick-stop, request of actual velocity or torque, publication of the motor
  data and pre-operational: none waits on another module.
\<close>

theorem stopMotors_procedure:
  assumes "\<not> all_motors_stopped s"
  shows "(all_motors_stopped (fst (outcome (stopMotors n env (s, w)))) \<longleftrightarrow>
            (\<exists>j<n. velocities_zero (velocity_feed env (n_velocity w + j))))
     \<and> (returned (stopMotors n env (s, w)) \<longleftrightarrow>
            (\<exists>j<n. velocities_zero (velocity_feed env (n_velocity w + j))))
     \<and> (first_zero_at env (n_velocity w) k \<longrightarrow>
          stopMotors n env (s, w) =
           (if k < n
            then Returned (let (s1, w1) = latch_stopped ((updateMotorData env ^^ Suc k) (s, quickStopAll w));
                               (s2, w2) = updateMotorData env (s1, w1)
                           in (s2, enterPreOperational w2))
            else Running ((updateMotorData env ^^ n) (s, quickStopAll w))))
     \<and> list_all stopMotors_call (new_events w (snd (outcome (stopMotors n env (s, w)))))"
proof -
  have q: "n_velocity (quickStopAll w) = n_velocity w" by (simp add: world_defs)
  have eq: "stopMotors n env (s, w) =
           (if k < n
            then Returned (let (s1, w1) = latch_stopped ((updateMotorData env ^^ Suc k) (s, quickStopAll w));
                               (s2, w2) = updateMotorData env (s1, w1)
                           in (s2, enterPreOperational w2))
            else Running ((updateMotorData env ^^ n) (s, quickStopAll w)))"
    if fz: "first_zero_at env (n_velocity w) k" for k
  proof (cases "k < n")
    case True
    have "stopMotors_loop n env (s, quickStopAll w) =
            Returned (latch_stopped ((updateMotorData env ^^ Suc k) (s, quickStopAll w)))"
      using assms fz True q by (intro stopMotors_loop_returned) simp_all
    then show ?thesis using True by (simp add: stopMotors_def split: prod.splits)
  next
    case False
    have "\<forall>j<n. \<not> velocities_zero (velocity_feed env (n_velocity (quickStopAll w) + j))"
      using fz False q by (simp add: first_zero_at_def)
    then have "stopMotors_loop n env (s, quickStopAll w) =
            Running ((updateMotorData env ^^ n) (s, quickStopAll w))"
      using assms by (intro stopMotors_loop_running) simp_all
    then show ?thesis using False by (simp add: stopMotors_def)
  qed
  have both: "all_motors_stopped (fst (outcome (stopMotors n env (s, w))))
        \<and> returned (stopMotors n env (s, w))"
    if ex: "\<exists>j<n. velocities_zero (velocity_feed env (n_velocity w + j))"
  proof -
    from first_zero_at_least [OF ex] obtain k where k: "k < n" "first_zero_at env (n_velocity w) k"
      by blast
    obtain s1 w1 where x: "(updateMotorData env ^^ Suc k) (s, quickStopAll w) = (s1, w1)" by fastforce
    obtain s2 w2 where y: "updateMotorData env (s1\<lparr>all_motors_stopped := True\<rparr>, w1) = (s2, w2)" by fastforce
    have "all_motors_stopped s2"
      using updateMotorData_fields(2) [of env "s1\<lparr>all_motors_stopped := True\<rparr>" w1] y by simp
    then show ?thesis using eq [OF k(2)] k(1) x y by (simp add: latch_stopped_def del: funpow.simps)
  qed
  have neither: "\<not> all_motors_stopped (fst (outcome (stopMotors n env (s, w))))
        \<and> \<not> returned (stopMotors n env (s, w))"
    if nex: "\<not> (\<exists>j<n. velocities_zero (velocity_feed env (n_velocity w + j)))"
  proof -
    have "\<forall>j<n. \<not> velocities_zero (velocity_feed env (n_velocity (quickStopAll w) + j))"
      using nex q by simp
    then have "stopMotors_loop n env (s, quickStopAll w) =
            Running ((updateMotorData env ^^ n) (s, quickStopAll w))"
      using assms by (intro stopMotors_loop_running) simp_all
    then show ?thesis using assms by (simp add: stopMotors_def funpow_updateMotorData_fields)
  qed
  have ev: "list_all stopMotors_call (new_events w (snd (outcome (stopMotors n env (s, w)))))"
    using stopMotors_events [of n env s w] by (auto simp: new_events_def)
  show ?thesis using both neither eq ev by blast
qed

theorem stopMotors_procedure_witness:
  "\<not> all_motors_stopped (example_Main kEmergencyBraking 300)
   \<and> first_zero_at (example_Environment kEmergencyBraking 0) (n_velocity example_World) (Suc (Suc 0))
   \<and> returned (stopMotors 5 (example_Environment kEmergencyBraking 0)
        (example_Main kEmergencyBraking 300, example_World))
   \<and> all_motors_stopped (fst (outcome (stopMotors 5 (example_Environment kEmergencyBraking 0)
        (example_Main kEmergencyBraking 300, example_World))))
   \<and> trace (snd (outcome (stopMotors 5 (example_Environment kEmergencyBraking 0)
        (example_Main kEmergencyBraking 300, example_World)))) =
       [QuickStopAll,
        RequestActualVelocity (all_velocities 100), RequestActualTorque zero_torques,
        SetMotorData (zero_Motors\<lparr>module_status := kReady,
          data_velocity_1 := 100, data_velocity_2 := 100, data_velocity_3 := 100, data_velocity_4 := 100\<rparr>),
        RequestActualVelocity (all_velocities 100), RequestActualTorque zero_torques,
        SetMotorData (zero_Motors\<lparr>module_status := kReady,
          data_velocity_1 := 100, data_velocity_2 := 100, data_velocity_3 := 100, data_velocity_4 := 100\<rparr>),
        RequestActualVelocity (all_velocities 0), RequestActualTorque zero_torques,
        SetMotorData (zero_Motors\<lparr>module_status := kReady\<rparr>),
        RequestActualVelocity (all_velocities 0), RequestActualTorque zero_torques,
        SetMotorData (zero_Motors\<lparr>module_status := kReady\<rparr>),
        EnterPreOperational]"
proof -
  have h1: "\<not> all_motors_stopped (example_Main kEmergencyBraking 300)"
    by (simp add: example_defs)
  have h2: "first_zero_at (example_Environment kEmergencyBraking 0) (n_velocity example_World) (Suc (Suc 0))"
    by (simp add: first_zero_at_def example_defs velocities_zero_def less_Suc_eq)
  note t = stopMotors_procedure [OF h1, of 5 "example_Environment kEmergencyBraking 0"
      example_World "Suc (Suc 0)"]
  have e: "stopMotors 5 (example_Environment kEmergencyBraking 0)
        (example_Main kEmergencyBraking 300, example_World) =
      Returned (let (s1, w1) = latch_stopped ((updateMotorData (example_Environment kEmergencyBraking 0) ^^ Suc (Suc (Suc 0)))
                    (example_Main kEmergencyBraking 300, quickStopAll example_World));
                    (s2, w2) = updateMotorData (example_Environment kEmergencyBraking 0) (s1, w1)
                in (s2, enterPreOperational w2))"
    using t h2 by simp
  show ?thesis
    using h1 h2 t unfolding e
    by (simp add: example_defs updateMotorData_def world_defs latch_stopped_def Let_def)
qed

subsection \<open>The accelerating and decelerating loops\<close>

lemma accelerate_loop_Suc_cases:
  obtains
    (exit) "current_state (state s) \<noteq> kAccelerating"
      "accelerate_loop (Suc n) env (s, w) = Returned (s, w)"
  | (critical) s1 w1 where
      "current_state (state s) = kAccelerating"
      "critical_failure (state_machine_feed env (n_state w))"
      "accelerate_loop (Suc n) env (s, w) = stopMotors n env (s1, w1)"
      "trace w1 = trace w @ [GetStateMachineData (state_machine_feed env (n_state w))]"
      "motor_failure s1 = motor_failure s"
  | (failure) s1 w1 md where
      "current_state (state s) = kAccelerating"
      "\<not> critical_failure (state_machine_feed env (n_state w))"
      "accelerate_loop (Suc n) env (s, w) = stopMotors n env (s1, w1)"
      "trace w1 = trace w @ [GetStateMachineData (state_machine_feed env (n_state w)),
         HealthCheck, GetFailure True, SetMotorData md]"
      "motor_failure s1"
  | (step) s1 w1 tv v t md where
      "current_state (state s) = kAccelerating"
      "\<not> critical_failure (state_machine_feed env (n_state w))"
      "accelerate_loop (Suc n) env (s, w) = accelerate_loop n env (s1, w1)"
      "trace w1 = trace w @ [GetStateMachineData (state_machine_feed env (n_state w)),
         HealthCheck, GetFailure False, GetNavigationData, SendTargetVelocity tv,
         SendTargetTorque 0, RequestActualVelocity v, RequestActualTorque t, SetMotorData md]"
      "motor_failure s1 = motor_failure s"
proof (cases "current_state (state s) = kAccelerating")
  case False
  then show ?thesis using exit by simp
next
  case acc: True
  define sm where "sm = state_machine_feed env (n_state w)"
  define s1 where "s1 = s\<lparr>state := sm\<rparr>"
  define w1 where "w1 = snd (getStateMachineData env w)"
  have t1: "trace w1 = trace w @ [GetStateMachineData sm]"
    by (simp add: w1_def sm_def getStateMachineData_def emit_def Let_def)
  show ?thesis
  proof (cases "critical_failure sm")
    case True
    have "accelerate_loop (Suc n) env (s, w) = stopMotors n env (s1, w1)"
      using acc True by (simp add: s1_def w1_def sm_def getStateMachineData_def Let_def)
    then show ?thesis using critical [of s1 w1] acc True t1 by (simp add: sm_def s1_def)
  next
    case ncf: False
    define w3 where "w3 = snd (getFailure env (healthCheck w1))"
    have t3: "trace w3 = trace w1 @ [HealthCheck, GetFailure (failure_feed env (n_failure w))]"
      by (simp add: w3_def w1_def world_defs Let_def)
    show ?thesis
    proof (cases "failure_feed env (n_failure w)")
      case True
      define x where "x = updateMotorFailure (s1, w3)"
      have "accelerate_loop (Suc n) env (s, w) = stopMotors n env (fst x, snd x)"
        using acc ncf True
        by (simp add: x_def w3_def s1_def w1_def sm_def world_defs Let_def)
      moreover have "trace (snd x) = trace w3 @ [SetMotorData (motor_data (fst x))]"
        by (simp add: x_def updateMotorFailure_def world_defs Let_def)
      moreover have "motor_failure (fst x)"
        by (simp add: x_def updateMotorFailure_def Let_def)
      ultimately show ?thesis
        using failure [of "fst x" "snd x" "motor_data (fst x)"] acc ncf True t1 t3
        by (simp add: sm_def)
    next
      case False
      define s4 where "s4 = s1\<lparr>target_velocity := target_velocity s1 + 100, target_torque := 0\<rparr>"
      define w6 where "w6 = sendTargetTorque 0 (sendTargetVelocity (target_velocity s4)
                              (snd (getNavigationData env w3)))"
      define x where "x = updateMotorData env (s4, w6)"
      have "accelerate_loop (Suc n) env (s, w) = accelerate_loop n env (fst x, snd x)"
        using acc ncf False
        by (simp add: x_def w6_def s4_def w3_def s1_def w1_def sm_def world_defs
              accelerationVelocity_def accelerationTorque_def Let_def)
      moreover have "trace w6 = trace w3 @ [GetNavigationData,
          SendTargetVelocity (target_velocity s4), SendTargetTorque 0]"
        by (simp add: w6_def world_defs Let_def)
      moreover have "trace (snd x) = trace w6 @
          [RequestActualVelocity (velocity_feed env (n_velocity w6)),
           RequestActualTorque (torque_feed env (n_torque w6)),
           SetMotorData (motor_data (fst x))]"
        unfolding x_def by (rule updateMotorData_trace)
      moreover have "motor_failure (fst x) = motor_failure s"
        by (simp add: x_def updateMotorData_fields s4_def s1_def)
      ultimately show ?thesis
        using step [of "fst x" "snd x" "target_velocity s4" "velocity_feed env (n_velocity w6)"
            "torque_feed env (n_torque w6)" "motor_data (fst x)"] acc ncf False t1 t3
        by (simp add: sm_def)
    qed
  qed
qed

lemma decelerate_loop_Suc_cases:
  obtains
    (exit) "current_state (state s) \<noteq> kDecelerating"
      "decelerate_loop (Suc n) env (s, w) = Returned (s, w)"
  | (critical) s1 w1 where
      "current_state (state s) = kDecelerating"
      "critical_failure (state_machine_feed env (n_state w))"
      "decelerate_loop (Suc n) env (s, w) = stopMotors n env (s1, w1)"
      "trace w1 = trace w @ [GetStateMachineData (state_machine_feed env (n_state w))]"
      "motor_failure s1 = motor_failure s"
  | (failure) s1 w1 md where
      "current_state (state s) = kDecelerating"
      "\<not> critical_failure (state_machine_feed env (n_state w))"
      "decelerate_loop (Suc n) env (s, w) = stopMotors n env (s1, w1)"
      "trace w1 = trace w @ [GetStateMachineData (state_machine_feed env (n_state w)),
         HealthCheck, GetFailure True, SetMotorData md]"
      "motor_failure s1"
  | (step) s1 w1 tv v t md where
      "current_state (state s) = kDecelerating"
      "\<not> critical_failure (state_machine_feed env (n_state w))"
      "decelerate_loop (Suc n) env (s, w) = decelerate_loop n env (s1, w1)"
      "trace w1 = trace w @ [GetStateMachineData (state_machine_feed env (n_state w)),
         HealthCheck, GetFailure False, GetNavigationData, SendTargetVelocity tv,
         SendTargetTorque 0, RequestActualVelocity v, RequestActualTorque t, SetMotorData md]"
      "motor_failure s1 = motor_failure s"
proof (cases "current_state (state s) = kDecelerating")
  case False
  then show ?thesis using exit by simp
next
  case acc: True
  define sm where "sm = state_machine_feed env (n_state w)"
  define s1 where "s1 = s\<lparr>state := sm\<rparr>"
  define w1 where "w1 = snd (getStateMachineData env w)"
  have t1: "trace w1 = trace w @ [GetStateMachineData sm]"
    by (simp add: w1_def sm_def getStateMachineData_def emit_def Let_def)
  show ?thesis
  proof (cases "critical_failure sm")
    case True
    have "decelerate_loop (Suc n) env (s, w) = stopMotors n env (s1, w1)"
      using acc True by (simp add: s1_def w1_def sm_def getStateMachineData_def Let_def)
    then show ?thesis using critical [of s1 w1] acc True t1 by (simp add: sm_def s1_def)
  next
    case ncf: False
    define w3 where "w3 = snd (getFailure env (healthCheck w1))"
    have t3: "trace w3 = trace w1 @ [HealthCheck, GetFailure (failure_feed env (n_failure w))]"
      by (simp add: w3_def w1_def world_defs Let_def)
    show ?thesis
    proof (cases "failure_feed env (n_failure w)")
      case True
      define x where "x = updateMotorFailure (s1, w3)"
      have "decelerate_loop (Suc n) env (s, w) = stopMotors n env (fst x, snd x)"
        using acc ncf True
        by (simp add: x_def w3_def s1_def w1_def sm_def world_defs Let_def)
      moreover have "trace (snd x) = trace w3 @ [SetMotorData (motor_data (fst x))]"
        by (simp add: x_def updateMotorFailure_def world_defs Let_def)
      moreover have "motor_failure (fst x)"
        by (simp add: x_def updateMotorFailure_def Let_def)
      ultimately show ?thesis
        using failure [of "fst x" "snd x" "motor_data (fst x)"] acc ncf True t1 t3
        by (simp add: sm_def)
    next
      case False
      define s4 where "s4 = s1\<lparr>target_velocity := target_velocity s1 - 100, target_torque := 0\<rparr>"
      define w6 where "w6 = sendTargetTorque 0 (sendTargetVelocity (target_velocity s4)
                              (snd (getNavigationData env w3)))"
      define x where "x = updateMotorData env (s4, w6)"
      have "decelerate_loop (Suc n) env (s, w) = decelerate_loop n env (fst x, snd x)"
        using acc ncf False
        by (simp add: x_def w6_def s4_def w3_def s1_def w1_def sm_def world_defs
              decelerationVelocity_def decelerationTorque_def Let_def)
      moreover have "trace w6 = trace w3 @ [GetNavigationData,
          SendTargetVelocity (target_velocity s4), SendTargetTorque 0]"
        by (simp add: w6_def world_defs Let_def)
      moreover have "trace (snd x) = trace w6 @
          [RequestActualVelocity (velocity_feed env (n_velocity w6)),
           RequestActualTorque (torque_feed env (n_torque w6)),
           SetMotorData (motor_data (fst x))]"
        unfolding x_def by (rule updateMotorData_trace)
      moreover have "motor_failure (fst x) = motor_failure s"
        by (simp add: x_def updateMotorData_fields s4_def s1_def)
      ultimately show ?thesis
        using step [of "fst x" "snd x" "target_velocity s4" "velocity_feed env (n_velocity w6)"
            "torque_feed env (n_torque w6)" "motor_data (fst x)"] acc ncf False t1 t3
        by (simp add: sm_def)
    qed
  qed
qed

lemma stopMotors_call_guarded:
  "list_all stopMotors_call es \<Longrightarrow> setpoints_guarded c es"
proof (induction es)
  case Nil
  show ?case by simp
next
  case (Cons e es)
  then show ?case by (cases e) simp_all
qed

lemma stopMotors_call_zero_torque:
  "list_all stopMotors_call es \<Longrightarrow> list_all zero_torque_setpoint es"
proof (induction es)
  case Nil
  show ?case by simp
next
  case (Cons e es)
  then show ?case by (cases e) simp_all
qed

lemma accelerate_loop_guarded:
  "c \<noteq> Stopping \<Longrightarrow>
   \<exists>es. trace (snd (outcome (accelerate_loop n env (s, w)))) = trace w @ es
        \<and> setpoints_guarded c es"
proof (induction n arbitrary: s w c)
  case 0
  show ?case by simp
next
  case (Suc n)
  show ?case
  proof (cases rule: accelerate_loop_Suc_cases [of s n env w])
    case exit
    then show ?thesis by simp
  next
    case (critical s1 w1)
    from stopMotors_events [of n env s1 w1] obtain es where
      es: "trace (snd (outcome (stopMotors n env (s1, w1)))) = trace w1 @ es"
          "list_all stopMotors_call es" by blast
    have "setpoints_guarded Stopping es" using es(2) by (rule stopMotors_call_guarded)
    then show ?thesis using critical es(1) Suc.prems by simp
  next
    case (failure s1 w1 md)
    from stopMotors_events [of n env s1 w1] obtain es where
      es: "trace (snd (outcome (stopMotors n env (s1, w1)))) = trace w1 @ es"
          "list_all stopMotors_call es" by blast
    have "setpoints_guarded Stopping es" using es(2) by (rule stopMotors_call_guarded)
    then show ?thesis using failure es(1) Suc.prems by simp
  next
    case (step s1 w1 tv v t md)
    from Suc.IH [of Cleared s1 w1] obtain es where
      es: "trace (snd (outcome (accelerate_loop n env (s1, w1)))) = trace w1 @ es"
          "setpoints_guarded Cleared es" by auto
    show ?thesis using step es Suc.prems by simp
  qed
qed

lemma accelerate_loop_zero_torque:
  "\<exists>es. trace (snd (outcome (accelerate_loop n env (s, w)))) = trace w @ es
        \<and> list_all zero_torque_setpoint es"
proof (induction n arbitrary: s w)
  case 0
  show ?case by simp
next
  case (Suc n)
  show ?case
  proof (cases rule: accelerate_loop_Suc_cases [of s n env w])
    case exit
    then show ?thesis by simp
  next
    case (critical s1 w1)
    from stopMotors_events [of n env s1 w1] obtain es where
      es: "trace (snd (outcome (stopMotors n env (s1, w1)))) = trace w1 @ es"
          "list_all stopMotors_call es" by blast
    have "list_all zero_torque_setpoint es" using es(2) by (rule stopMotors_call_zero_torque)
    then show ?thesis using critical es(1) by simp
  next
    case (failure s1 w1 md)
    from stopMotors_events [of n env s1 w1] obtain es where
      es: "trace (snd (outcome (stopMotors n env (s1, w1)))) = trace w1 @ es"
          "list_all stopMotors_call es" by blast
    have "list_all zero_torque_setpoint es" using es(2) by (rule stopMotors_call_zero_torque)
    then show ?thesis using failure es(1) by simp
  next
    case (step s1 w1 tv v t md)
    from Suc.IH [of s1 w1] obtain es where
      es: "trace (snd (outcome (accelerate_loop n env (s1, w1)))) = trace w1 @ es"
          "list_all zero_torque_setpoint es" by auto
    show ?thesis using step es by simp
  qed
qed

lemma decelerate_loop_zero_torque:
  "\<exists>es. trace (snd (outcome (decelerate_loop n env (s, w)))) = trace w @ es
        \<and> list_all zero_torque_setpoint es"
proof (induction n arbitrary: s w)
  case 0
  show ?case by simp
next
  case (Suc n)
  show ?case
  proof (cases rule: decelerate_loop_Suc_cases [of s n env w])
    case exit
    then show ?thesis by simp
  next
    case (critical s1 w1)
    from stopMotors_events [of n env s1 w1] obtain es where
      es: "trace (snd (outcome (stopMotors n env (s1, w1)))) = trace w1 @ es"
          "list_all stopMotors_call es" by blast
    have "list_all zero_torque_setpoint es" using es(2) by (rule stopMotors_call_zero_torque)
    then show ?thesis using critical es(1) by simp
  next
    case (failure s1 w1 md)
    from stopMotors_events [of n env s1 w1] obtain es where
      es: "trace (snd (outcome (stopMotors n env (s1, w1)))) = trace w1 @ es"
          "list_all stopMotors_call es" by blast
    have "list_all zero_torque_setpoint es" using es(2) by (rule stopMotors_call_zero_torque)
    then show ?thesis using failure es(1) by simp
  next
    case (step s1 w1 tv v t md)
    from Suc.IH [of s1 w1] obtain es where
      es: "trace (snd (outcome (decelerate_loop n env (s1, w1)))) = trace w1 @ es"
          "list_all zero_torque_setpoint es" by auto
    show ?thesis using step es by simp
  qed
qed

lemma accelerateMotors_trace:
  "\<exists>es. trace (snd (outcome (accelerateMotors n env (s, w)))) = trace w @ es
        \<and> setpoints_guarded Unchecked es \<and> list_all zero_torque_setpoint es"
proof -
  define x where "x = (if \<not> nav_calib s then (s\<lparr>nav_calib := True\<rparr>, barrier_wait w) else (s, w))"
  have a: "accelerateMotors n env (s, w) = accelerate_loop n env (fst x, snd x)"
    by (simp add: accelerateMotors_def x_def)
  from accelerate_loop_guarded [of Unchecked n env "fst x" "snd x"] obtain es where
    es: "trace (snd (outcome (accelerate_loop n env (fst x, snd x)))) = trace (snd x) @ es"
        "setpoints_guarded Unchecked es" by auto
  from accelerate_loop_zero_torque [of n env "fst x" "snd x"] obtain es' where
    es': "trace (snd (outcome (accelerate_loop n env (fst x, snd x)))) = trace (snd x) @ es'"
        "list_all zero_torque_setpoint es'" by auto
  have same: "es' = es" using es(1) es'(1) by simp
  show ?thesis
  proof (cases "nav_calib s")
    case True
    then show ?thesis using a es es' same by (simp add: x_def)
  next
    case False
    then have "trace (snd x) = trace w @ [BarrierWait]"
      by (simp add: x_def barrier_wait_def emit_def)
    then show ?thesis using a es es' same by simp
  qed
qed

text \<open>
  Claim C2. Every iteration of the loop of \<open>accelerateMotors\<close> starts by reading the
  state machine's snapshot again. If the snapshot has \<open>critical_failure\<close> set, the
  iteration calls \<open>stopMotors\<close> and the outcome of \<open>stopMotors\<close> is the outcome of the
  loop: nothing follows it. Over the whole of \<open>accelerateMotors\<close>, however long it runs,
  a target velocity or target torque is sent only in an iteration whose snapshot showed
  no critical failure and whose health check reported no failure, and once a critical
  failure or a motor failure has been seen no snapshot is read and no setpoint is sent
  any more.
\<close>

theorem accelerate_critical_failure_guard:
  assumes "current_state (state s) = kAccelerating"
  shows "(\<exists>es. new_events w (snd (outcome (accelerate_loop (Suc n) env (s, w)))) =
             GetStateMachineData (state_machine_feed env (n_state w)) # es)
     \<and> (critical_failure (state_machine_feed env (n_state w)) \<longrightarrow>
          accelerate_loop (Suc n) env (s, w) =
            stopMotors n env (s\<lparr>state := state_machine_feed env (n_state w)\<rparr>,
                              snd (getStateMachineData env w)))
     \<and> setpoints_guarded Unchecked
          (new_events w (snd (outcome (accelerateMotors m env (s, w)))))"
proof (intro conjI impI)
  show "\<exists>es. new_events w (snd (outcome (accelerate_loop (Suc n) env (s, w)))) =
             GetStateMachineData (state_machine_feed env (n_state w)) # es"
  proof (cases rule: accelerate_loop_Suc_cases [of s n env w])
    case exit
    then show ?thesis using assms by simp
  next
    case (critical s1 w1)
    from stopMotors_events [of n env s1 w1] obtain es where
      "trace (snd (outcome (stopMotors n env (s1, w1)))) = trace w1 @ es" by blast
    then show ?thesis using critical by (simp add: new_events_def)
  next
    case (failure s1 w1 md)
    from stopMotors_events [of n env s1 w1] obtain es where
      "trace (snd (outcome (stopMotors n env (s1, w1)))) = trace w1 @ es" by blast
    then show ?thesis using failure by (simp add: new_events_def)
  next
    case (step s1 w1 tv v t md)
    from accelerate_loop_zero_torque [of n env s1 w1] obtain es where
      "trace (snd (outcome (accelerate_loop n env (s1, w1)))) = trace w1 @ es" by blast
    then show ?thesis using step by (simp add: new_events_def)
  qed
next
  assume "critical_failure (state_machine_feed env (n_state w))"
  then show "accelerate_loop (Suc n) env (s, w) =
            stopMotors n env (s\<lparr>state := state_machine_feed env (n_state w)\<rparr>,
                              snd (getStateMachineData env w))"
    using assms by (simp add: getStateMachineData_def Let_def)
next
  from accelerateMotors_trace [of m env s w] obtain es where
    "trace (snd (outcome (accelerateMotors m env (s, w)))) = trace w @ es"
    "setpoints_guarded Unchecked es" by blast
  then show "setpoints_guarded Unchecked
          (new_events w (snd (outcome (accelerateMotors m env (s, w)))))"
    by (simp add: new_events_def)
qed

theorem accelerate_critical_failure_guard_witness:
  "current_state (state (example_Main kAccelerating 0)) = kAccelerating
   \<and> critical_failure (state_machine_feed (example_Environment kAccelerating 0) (n_state example_World))
   \<and> accelerate_loop (Suc 4) (example_Environment kAccelerating 0)
        (example_Main kAccelerating 0, example_World) =
      stopMotors 4 (example_Environment kAccelerating 0)
        ((example_Main kAccelerating 0)\<lparr>state := \<lparr>current_state = kAccelerating, critical_failure = True\<rparr>\<rparr>,
         example_World\<lparr>n_state := 1, trace := [GetStateMachineData \<lparr>current_state = kAccelerating, critical_failure = True\<rparr>]\<rparr>)
   \<and> setpoints_guarded Unchecked
        (new_events example_World (snd (outcome (accelerateMotors 5 (example_Environment kAccelerating 1)
           (example_Main kAccelerating 0, example_World)))))"
proof -
  have h: "current_state (state (example_Main kAccelerating 0)) = kAccelerating"
    by (simp add: example_defs)
  have c: "critical_failure (state_machine_feed (example_Environment kAccelerating 0) (n_state example_World))"
    by (simp add: example_defs)
  show ?thesis
    using h c
      accelerate_critical_failure_guard [OF h, of example_World 4 "example_Environment kAccelerating 0" 5]
      accelerate_critical_failure_guard [OF h, of example_World 4 "example_Environment kAccelerating 1" 5]
    by (simp add: example_defs getStateMachineData_def emit_def Let_def)
qed

text \<open>
  Claim C10. \<open>accelerationTorque\<close> and \<open>decelerationTorque\<close> return \<open>0\<close> for every
  measured velocity, and every target torque that \<open>accelerateMotors\<close> or
  \<open>decelerateMotors\<close> sends over CAN, however long they run, is \<open>0\<close>.
\<close>

theorem torque_setpoint_zero:
  "accelerationTorque v = 0 \<and> decelerationTorque v = 0
   \<and> (\<forall>t. SendTargetTorque t \<in> set (new_events w (snd (outcome (accelerateMotors n env (s, w)))))
          \<longrightarrow> t = 0)
   \<and> (\<forall>t. SendTargetTorque t \<in> set (new_events w (snd (outcome (decelerateMotors n env (s, w)))))
          \<longrightarrow> t = 0)"
proof -
  from accelerateMotors_trace [of n env s w] obtain es where
    a: "trace (snd (outcome (accelerateMotors n env (s, w)))) = trace w @ es"
       "list_all zero_torque_setpoint es" by blast
  from decelerate_loop_zero_torque [of n env s w] obtain es' where
    d: "trace (snd (outcome (decelerateMotors n env (s, w)))) = trace w @ es'"
       "list_all zero_torque_setpoint es'" by (auto simp: decelerateMotors_def)
  have z: "\<And>es t. list_all zero_torque_setpoint es \<Longrightarrow> SendTargetTorque t \<in> set es \<Longrightarrow> t = 0"
    by (fastforce simp: list_all_iff)
  show ?thesis
    using z [OF a(2)] z [OF d(2)] new_events_append [OF a(1)] new_events_append [OF d(1)]
    by (simp add: accelerationTorque_def decelerationTorque_def)
qed

theorem torque_setpoint_zero_witness:
  "SendTargetTorque (target_torque (fst (outcome
      (accelerateMotors 3 (example_Environment kAccelerating 9)
         (example_Main kAccelerating 0, example_World)))))
     \<in> set (new_events example_World (snd (outcome
      (accelerateMotors 3 (example_Environment kAccelerating 9)
         (example_Main kAccelerating 0, example_World)))))
   \<and> target_torque (fst (outcome
      (accelerateMotors 3 (example_Environment kAccelerating 9)
         (example_Main kAccelerating 0, example_World)))) = 0"
proof -
  have m: "SendTargetTorque (target_torque (fst (outcome
      (accelerateMotors 3 (example_Environment kAccelerating 9)
         (example_Main kAccelerating 0, example_World)))))
     \<in> set (new_events example_World (snd (outcome
      (accelerateMotors 3 (example_Environment kAccelerating 9)
         (example_Main kAccelerating 0, example_World)))))"
    by (simp add: eval_nat_numeral accelerateMotors_def new_events_def example_defs world_defs
          updateMotorData_def accelerationVelocity_def accelerationTorque_def Let_def)
  then show ?thesis
    using torque_setpoint_zero [of "0::nat" example_World 3 "example_Environment kAccelerating 9"
        "example_Main kAccelerating 0"]
    by blast
qed

subsection \<open>The failure latch\<close>

lemma stopMotors_loop_failure:
  "motor_failure (fst (outcome (stopMotors_loop n env (s, w)))) = motor_failure s"
proof (induction n arbitrary: s w)
  case 0
  show ?case by simp
next
  case (Suc n)
  obtain s1 w1 where u: "updateMotorData env (s, w) = (s1, w1)" by fastforce
  have c: "motor_failure s1 = motor_failure s"
    using updateMotorData_fields [of env s w] u by simp
  show ?case
    using u c Suc.IH [of s1 w1] Suc.IH [of "s1\<lparr>all_motors_stopped := True\<rparr>" w1] by simp
qed

lemma stopMotors_failure:
  "motor_failure (fst (outcome (stopMotors n env (s, w)))) = motor_failure s"
proof (cases "stopMotors_loop n env (s, quickStopAll w)")
  case (Running x)
  then show ?thesis
    using stopMotors_loop_failure [of n env s "quickStopAll w"] by (simp add: stopMotors_def)
next
  case (Returned x)
  obtain s1 w1 where x: "x = (s1, w1)" by fastforce
  obtain s2 w2 where u: "updateMotorData env (s1, w1) = (s2, w2)" by fastforce
  have c: "motor_failure s2 = motor_failure s1"
    using updateMotorData_fields [of env s1 w1] u by simp
  show ?thesis
    using stopMotors_loop_failure [of n env s "quickStopAll w"] Returned x u c
    by (simp add: stopMotors_def)
qed

lemma accelerate_loop_failure:
  "motor_failure s \<Longrightarrow> motor_failure (fst (outcome (accelerate_loop n env (s, w))))"
proof (induction n arbitrary: s w)
  case 0
  then show ?case by simp
next
  case (Suc n)
  show ?case
  proof (cases rule: accelerate_loop_Suc_cases [of s n env w])
    case exit
    then show ?thesis using Suc.prems by simp
  next
    case (critical s1 w1)
    then show ?thesis using Suc.prems stopMotors_failure [of n env s1 w1] by simp
  next
    case (failure s1 w1 md)
    then show ?thesis using stopMotors_failure [of n env s1 w1] by simp
  next
    case (step s1 w1 tv v t md)
    then show ?thesis using Suc.prems Suc.IH [of s1 w1] by simp
  qed
qed
lemma decelerate_loop_failure:
  "motor_failure s \<Longrightarrow> motor_failure (fst (outcome (decelerate_loop n env (s, w))))"
proof (induction n arbitrary: s w)
  case 0
  then show ?case by simp
next
  case (Suc n)
  show ?case
  proof (cases rule: decelerate_loop_Suc_cases [of s n env w])
    case exit
    then show ?thesis using Suc.prems by simp
  next
    case (critical s1 w1)
    then show ?thesis using Suc.prems stopMotors_failure [of n env s1 w1] by simp
  next
    case (failure s1 w1 md)
    then show ?thesis using stopMotors_failure [of n env s1 w1] by simp
  next
    case (step s1 w1 tv v t md)
    then show ?thesis using Suc.prems Suc.IH [of s1 w1] by simp
  qed
qed

text \<open>
  Claim C6. \<open>updateMotorFailure\<close> sets the latch \<open>motor_failure\<close>. With the latch set,
  \<open>initMotors\<close> and \<open>prepareMotors\<close> change nothing: the controller's members and the
  world, hence the trace of communicator calls and the published motor data, are what
  they were. No operation of the controller clears the latch.
\<close>

theorem motor_failure_latch:
  "motor_failure (fst (updateMotorFailure (s, w)))
   \<and> initMotors env (updateMotorFailure (s, w)) = updateMotorFailure (s, w)
   \<and> prepareMotors env (updateMotorFailure (s, w)) = updateMotorFailure (s, w)
   \<and> (motor_failure s \<longrightarrow>
        initMotors env (s, w) = (s, w) \<and> prepareMotors env (s, w) = (s, w)
        \<and> motor_failure (fst (updateMotorData env (s, w)))
        \<and> motor_failure (fst (outcome (stopMotors n env (s, w))))
        \<and> motor_failure (fst (outcome (accelerateMotors n env (s, w))))
        \<and> motor_failure (fst (outcome (decelerateMotors n env (s, w)))))"
proof -
  have a: "motor_failure s \<Longrightarrow> motor_failure (fst (outcome (accelerateMotors n env (s, w))))"
    using accelerate_loop_failure [of "s\<lparr>nav_calib := True\<rparr>" n env "barrier_wait w"]
      accelerate_loop_failure [of s n env w]
    by (simp add: accelerateMotors_def)
  show ?thesis
    using a decelerate_loop_failure [of s n env w] stopMotors_failure [of n env s w]
    by (simp add: updateMotorFailure_def initMotors_def prepareMotors_def decelerateMotors_def
          updateMotorData_fields Let_def)
qed

theorem motor_failure_latch_witness:
  "motor_failure (fst (updateMotorFailure (example_Main kIdle 0, example_World)))
   \<and> initMotors (example_Environment kIdle 9)
        (updateMotorFailure (example_Main kIdle 0, example_World))
      = updateMotorFailure (example_Main kIdle 0, example_World)
   \<and> prepareMotors (example_Environment kCalibrating 9)
        (updateMotorFailure (example_Main kIdle 0, example_World))
      = updateMotorFailure (example_Main kIdle 0, example_World)"
proof -
  obtain s w where x: "updateMotorFailure (example_Main kIdle 0, example_World) = (s, w)"
    by fastforce
  have h: "motor_failure s" using x by (auto simp: updateMotorFailure_def Let_def)
  show ?thesis
    using h x motor_failure_latch [of s w "example_Environment kIdle 9" 0]
      motor_failure_latch [of s w "example_Environment kCalibrating 9" 0]
    by simp
qed

subsection \<open>Target velocity\<close>

lemma sint_add_100:
  "sint (x :: int32) \<le> 2147483547 \<Longrightarrow> sint (x + 100) = sint x + 100"
proof -
  assume a: "sint x \<le> 2147483547"
  have lo: "- (2 ^ 31) \<le> sint x" using sint_ge [of x] by simp
  have "sint (x + 100) = signed_take_bit 31 (sint x + sint (100 :: int32))"
    by (simp add: sint_word_ariths)
  also have "sint (100 :: int32) = 100" by simp
  also have "signed_take_bit 31 (sint x + 100) = sint x + 100"
    using a lo by (intro signed_take_bit_int_eq_self) simp_all
  finally show ?thesis .
qed

lemma sint_sub_100:
  "- 2147483548 \<le> sint (x :: int32) \<Longrightarrow> sint (x - 100) = sint x - 100"
proof -
  assume a: "- 2147483548 \<le> sint x"
  have hi: "sint x < 2 ^ 31" using sint_lt [of x] by simp
  have "sint (x - 100) = signed_take_bit 31 (sint x - sint (100 :: int32))"
    by (simp add: sint_word_ariths)
  also have "sint (100 :: int32) = 100" by simp
  also have "signed_take_bit 31 (sint x - 100) = sint x - 100"
    using a hi by (intro signed_take_bit_int_eq_self) simp_all
  finally show ?thesis .
qed

lemma acceleration_ticks_increasing:
  "sint (target_velocity s) + 100 * int (length vs) \<le> 2147483647 \<Longrightarrow>
   sorted_wrt (<) (map sint (target_velocity s # acceleration_ticks vs s))
   \<and> (\<forall>t \<in> set (acceleration_ticks vs s). sint (target_velocity s) < sint t)"
proof (induction vs arbitrary: s)
  case Nil
  show ?case by simp
next
  case (Cons v vs)
  define s1 where "s1 = s\<lparr>target_velocity := target_velocity s + 100\<rparr>"
  have b: "sint (target_velocity s) \<le> 2147483547" using Cons.prems by simp
  have t1: "sint (target_velocity s1) = sint (target_velocity s) + 100"
    using sint_add_100 [OF b] by (simp add: s1_def)
  have "sint (target_velocity s1) + 100 * int (length vs) \<le> 2147483647"
    using Cons.prems t1 by simp
  from Cons.IH [OF this] have
    ih: "sorted_wrt (<) (map sint (target_velocity s1 # acceleration_ticks vs s1))"
        "\<forall>t \<in> set (acceleration_ticks vs s1). sint (target_velocity s1) < sint t" by simp_all
  have e: "acceleration_ticks (v # vs) s = target_velocity s1 # acceleration_ticks vs s1"
    by (simp add: accelerationVelocity_def s1_def Let_def)
  show ?case using ih t1 unfolding e by auto
qed

lemma deceleration_ticks_decreasing:
  "- 2147483648 \<le> sint (target_velocity s) - 100 * int (length vs) \<Longrightarrow>
   sorted_wrt (>) (map sint (target_velocity s # deceleration_ticks vs s))
   \<and> (\<forall>t \<in> set (deceleration_ticks vs s). sint t < sint (target_velocity s))"
proof (induction vs arbitrary: s)
  case Nil
  show ?case by simp
next
  case (Cons v vs)
  define s1 where "s1 = s\<lparr>target_velocity := target_velocity s - 100\<rparr>"
  have b: "- 2147483548 \<le> sint (target_velocity s)" using Cons.prems by simp
  have t1: "sint (target_velocity s1) = sint (target_velocity s) - 100"
    using sint_sub_100 [OF b] by (simp add: s1_def)
  have "- 2147483648 \<le> sint (target_velocity s1) - 100 * int (length vs)"
    using Cons.prems t1 by simp
  from Cons.IH [OF this] have
    ih: "sorted_wrt (>) (map sint (target_velocity s1 # deceleration_ticks vs s1))"
        "\<forall>t \<in> set (deceleration_ticks vs s1). sint t < sint (target_velocity s1)" by simp_all
  have e: "deceleration_ticks (v # vs) s = target_velocity s1 # deceleration_ticks vs s1"
    by (simp add: decelerationVelocity_def s1_def Let_def)
  show ?case using ih t1 unfolding e by auto
qed

text \<open>
  Claim C7, as stated, fails where the 32-bit target velocity overflows: from the
  stored target velocity \<open>2147483600\<close>, which \<open>21474836\<close> accelerating ticks reach,
  \<open>accelerationVelocity\<close> returns \<open>-2147483596\<close>, not the stored value plus \<open>100\<close>, and
  the sequence of targets decreases.
\<close>

theorem velocity_steps_counterexample:
  "sint (target_velocity (example_Main kAccelerating 2147483600)) = 2147483600
   \<and> sint (fst (accelerationVelocity (0::nat) (example_Main kAccelerating 2147483600)))
       = - 2147483596"
  by (simp add: accelerationVelocity_def example_Main_def Let_def)

text \<open>
  Claim C7, amended. For every measured velocity the result of \<open>accelerationVelocity\<close>
  and of \<open>decelerationVelocity\<close> does not depend on it, and is stored as the new target
  velocity. The result is the stored target velocity plus \<open>100\<close> unless that exceeds
  \<open>2147483647\<close>, respectively minus \<open>100\<close> unless that is below \<open>-2147483648\<close>.
  The targets computed on consecutive ticks are strictly increasing while accelerating
  and strictly decreasing while decelerating, as long as they stay within these bounds.
\<close>

theorem velocity_steps:
  "accelerationVelocity v s = accelerationVelocity v' s
   \<and> decelerationVelocity v s = decelerationVelocity v' s
   \<and> fst (accelerationVelocity v s) = target_velocity s + 100
   \<and> fst (decelerationVelocity v s) = target_velocity s - 100
   \<and> target_velocity (snd (accelerationVelocity v s)) = fst (accelerationVelocity v s)
   \<and> target_velocity (snd (decelerationVelocity v s)) = fst (decelerationVelocity v s)
   \<and> (sint (target_velocity s) \<le> 2147483547 \<longrightarrow>
        sint (fst (accelerationVelocity v s)) = sint (target_velocity s) + 100)
   \<and> (- 2147483548 \<le> sint (target_velocity s) \<longrightarrow>
        sint (fst (decelerationVelocity v s)) = sint (target_velocity s) - 100)
   \<and> (sint (target_velocity s) + 100 * int (length vs) \<le> 2147483647 \<longrightarrow>
        sorted_wrt (<) (map sint (target_velocity s # acceleration_ticks vs s)))
   \<and> (- 2147483648 \<le> sint (target_velocity s) - 100 * int (length vs) \<longrightarrow>
        sorted_wrt (>) (map sint (target_velocity s # deceleration_ticks vs s)))"
  using acceleration_ticks_increasing [of s vs] deceleration_ticks_decreasing [of s vs]
    sint_add_100 [of "target_velocity s"] sint_sub_100 [of "target_velocity s"]
  by (simp add: accelerationVelocity_def decelerationVelocity_def Let_def)

theorem velocity_steps_witness:
  "sint (target_velocity (example_Main kAccelerating 0)) \<le> 2147483547
   \<and> sint (fst (accelerationVelocity (0::nat) (example_Main kAccelerating 0)))
       = sint (target_velocity (example_Main kAccelerating 0)) + 100
   \<and> - 2147483548 \<le> sint (target_velocity (example_Main kAccelerating 0))
   \<and> sint (fst (decelerationVelocity (0::nat) (example_Main kAccelerating 0)))
       = sint (target_velocity (example_Main kAccelerating 0)) - 100
   \<and> sint (target_velocity (example_Main kAccelerating 0)) + 100 * int (length [0::nat, 7, 3])
       \<le> 2147483647
   \<and> sorted_wrt (<) (map sint (target_velocity (example_Main kAccelerating 0)
        # acceleration_ticks [0::nat, 7, 3] (example_Main kAccelerating 0)))
   \<and> - 2147483648
       \<le> sint (target_velocity (example_Main kAccelerating 0)) - 100 * int (length [0::nat, 7, 3])
   \<and> sorted_wrt (>) (map sint (target_velocity (example_Main kAccelerating 0)
        # deceleration_ticks [0::nat, 7, 3] (example_Main kAccelerating 0)))"
proof -
  have h1: "sint (target_velocity (example_Main kAccelerating 0)) \<le> 2147483547"
    and h2: "- 2147483548 \<le> sint (target_velocity (example_Main kAccelerating 0))"
    and h3: "sint (target_velocity (example_Main kAccelerating 0))
               + 100 * int (length [0::nat, 7, 3]) \<le> 2147483647"
    and h4: "- 2147483648 \<le> sint (target_velocity (example_Main kAccelerating 0))
               - 100 * int (length [0::nat, 7, 3])"
    by (simp_all add: example_Main_def)
  show ?thesis
    using h1 h2 h3 h4
      velocity_steps [of "0::nat" "example_Main kAccelerating 0" 0 "[0::nat, 7, 3]"]
    by blast
qed

section \<open>Properties of the sensor aggregator\<close>

lemmas sensors_example_defs = example_Imu_def example_Sensors_def example_Battery_def
  example_Batteries_def example_Data_def imu_only_cycle_def stuck_imu_cycle_def
  low_power_cycle_def example_constructed_def imu_write_def low_power_write_def
  Sensors_Main_constructor_def managers_write_def

declare updateImu_from.simps [simp del] updateBattery_from.simps [simp del]

lemma all_from_next:
  "P i \<Longrightarrow> (\<forall>j. i + 1 \<le> j \<and> j < n \<longrightarrow> P j) \<longleftrightarrow> (\<forall>j. i \<le> j \<and> j < (n::nat) \<longrightarrow> P j)"
proof
  assume i: "P i" and a: "\<forall>j. i + 1 \<le> j \<and> j < n \<longrightarrow> P j"
  show "\<forall>j. i \<le> j \<and> j < n \<longrightarrow> P j"
  proof (intro allI impI)
    fix j assume j: "i \<le> j \<and> j < n"
    show "P j"
    proof (cases "j = i")
      case True
      then show ?thesis using i by simp
    next
      case False
      then have "i + 1 \<le> j" using j by simp
      then show ?thesis using a j by simp
    qed
  qed
next
  assume "\<forall>j. i \<le> j \<and> j < n \<longrightarrow> P j"
  then show "\<forall>j. i + 1 \<le> j \<and> j < n \<longrightarrow> P j" by simp
qed


lemma updateImu_from_iff:
  "updateImu_from i s \<longleftrightarrow>
     (\<forall>j. i \<le> j \<and> j < kNumImus \<longrightarrow>
        timestamp (acc (imu (old_sensors s) ! j)) \<noteq> timestamp (acc (imu (sensors s) ! j)))"
proof (induction i s rule: updateImu_from.induct)
  case (1 i s)
  show ?case
  proof (cases "i < kNumImus")
    case False
    then show ?thesis by (subst updateImu_from.simps) simp
  next
    case lt: True
    show ?thesis
    proof (cases "timestamp (acc (imu (old_sensors s) ! i)) = timestamp (acc (imu (sensors s) ! i))")
      case True
      then show ?thesis using lt by (subst updateImu_from.simps) fastforce
    next
      case False
      have "updateImu_from i s = updateImu_from (i + 1) s"
        using lt False by (subst updateImu_from.simps) simp
      also have "\<dots> \<longleftrightarrow> (\<forall>j. i + 1 \<le> j \<and> j < kNumImus \<longrightarrow>
        timestamp (acc (imu (old_sensors s) ! j)) \<noteq> timestamp (acc (imu (sensors s) ! j)))"
        using "1.IH" lt False by simp
      also have "\<dots> \<longleftrightarrow> (\<forall>j. i \<le> j \<and> j < kNumImus \<longrightarrow>
        timestamp (acc (imu (old_sensors s) ! j)) \<noteq> timestamp (acc (imu (sensors s) ! j)))"
        using False
        by (intro all_from_next
              [of "\<lambda>j. timestamp (acc (imu (old_sensors s) ! j)) \<noteq> timestamp (acc (imu (sensors s) ! j))"])
      finally show ?thesis .
    qed
  qed
qed

lemma updateImu_iff:
  "updateImu s \<longleftrightarrow>
     (\<forall>j<kNumImus. timestamp (acc (imu (old_sensors s) ! j)) \<noteq> timestamp (acc (imu (sensors s) ! j)))"
  by (simp add: updateImu_def updateImu_from_iff)

lemma updateProxi_iff:
  "updateProxi s \<longleftrightarrow>
     timestamp (proxi_front (old_sensors s)) \<noteq> timestamp (proxi_front (sensors s))
     \<and> timestamp (proxi_back (old_sensors s)) \<noteq> timestamp (proxi_back (sensors s))"
  by (simp add: updateProxi_def)


lemma run_cycle_sensors_published:
  "sensors_published d (snd (run_cycle n (s, d))) \<longleftrightarrow> updateImu s \<or> updateProxi s"
proof (cases "updateImu s \<or> updateProxi s")
  case True
  then show ?thesis
    by (cases "updateBattery n (s\<lparr>old_sensors := sensors s\<rparr>)")
       (simp_all add: run_cycle_def sensors_published_def setSensorsData_def setBatteryData_def)
next
  case False
  then show ?thesis
    by (cases "updateBattery n s")
       (simp_all add: run_cycle_def sensors_published_def setSensorsData_def setBatteryData_def)
qed


lemma updateImu_imu_only: "updateImu imu_only_cycle"
  by (simp add: updateImu_def updateImu_from.simps kNumImus_def sensors_example_defs)

text \<open>
  Claim C4. The claim lets the Sensors snapshot be published only in a cycle in which
  both proximity banks have a new timestamp, and so does the comment in \<open>run\<close>, which
  wants the data written only when all the IMU and proximity values are different.
  The code publishes on \<open>updateImu() || updateProxi()\<close> and does not meet the claim:
  once the IMU manager has written new readings of all eight IMUs, the proximity banks
  being as the constructor left them, the cycle publishes the snapshot although the
  timestamp of the front proximity bank has not advanced.
\<close>

theorem sensors_published_without_proximity:
  "history 2 [imu_write] (example_constructed, example_Data) = (imu_only_cycle, example_Data)
   \<and> sensors_published example_Data (snd (run_cycle 2 (imu_only_cycle, example_Data)))
   \<and> \<not> timestamp (proxi_front (old_sensors imu_only_cycle))
           < timestamp (proxi_front (sensors imu_only_cycle))"
proof -
  have "history 2 [imu_write] (example_constructed, example_Data)
          = (imu_only_cycle, example_Data)"
    by (simp add: sensors_example_defs)
  moreover have "sensors_published example_Data
          (snd (run_cycle 2 (imu_only_cycle, example_Data)))"
    by (simp add: run_cycle_sensors_published updateImu_imu_only)
  moreover have "\<not> timestamp (proxi_front (old_sensors imu_only_cycle))
           < timestamp (proxi_front (sensors imu_only_cycle))"
    by (simp add: sensors_example_defs)
  ultimately show ?thesis by blast
qed

text \<open>
  Claim C5. In a cycle in which exactly one of the eight IMUs has its acceleration
  timestamp unchanged while both proximity banks' timestamps have changed, the
  aggregator publishes the Sensors snapshot: the stuck IMU makes \<open>updateImu\<close> false, and
  the publication goes through \<open>updateProxi\<close>. The registry then holds the current
  buffer, which also becomes the previous one.
\<close>

theorem stuck_imu_still_published:
  assumes "i < kNumImus"
    and "timestamp (acc (imu (old_sensors s) ! i)) = timestamp (acc (imu (sensors s) ! i))"
    and "\<forall>j<kNumImus. j \<noteq> i \<longrightarrow>
           timestamp (acc (imu (old_sensors s) ! j)) \<noteq> timestamp (acc (imu (sensors s) ! j))"
    and "timestamp (proxi_front (old_sensors s)) \<noteq> timestamp (proxi_front (sensors s))"
    and "timestamp (proxi_back (old_sensors s)) \<noteq> timestamp (proxi_back (sensors s))"
  shows "\<not> updateImu s
     \<and> sensors_published d (snd (run_cycle n (s, d)))
     \<and> sensors_data (snd (run_cycle n (s, d))) = sensors s
     \<and> old_sensors (fst (run_cycle n (s, d))) = sensors s"
proof -
  have p: "updateProxi s" using assms(4,5) by (simp add: updateProxi_iff)
  have u: "\<not> updateImu s" using assms(1,2) by (auto simp: updateImu_iff)
  have "sensors_data (snd (run_cycle n (s, d))) = sensors s
     \<and> old_sensors (fst (run_cycle n (s, d))) = sensors s"
    using p
    by (cases "updateBattery n (s\<lparr>old_sensors := sensors s\<rparr>)")
       (simp_all add: run_cycle_def setSensorsData_def setBatteryData_def)
  then show ?thesis using p u by (simp add: run_cycle_sensors_published)
qed

theorem stuck_imu_still_published_witness:
  "(3::nat) < kNumImus
   \<and> timestamp (acc (imu (old_sensors stuck_imu_cycle) ! 3))
       = timestamp (acc (imu (sensors stuck_imu_cycle) ! 3))
   \<and> sensors_published example_Data (snd (run_cycle 2 (stuck_imu_cycle, example_Data)))
   \<and> sensors_data (snd (run_cycle 2 (stuck_imu_cycle, example_Data))) = sensors stuck_imu_cycle"
proof -
  have h1: "(3::nat) < kNumImus" by (simp add: kNumImus_def)
  have h2: "timestamp (acc (imu (old_sensors stuck_imu_cycle) ! 3))
       = timestamp (acc (imu (sensors stuck_imu_cycle) ! 3))"
    by (simp add: sensors_example_defs)
  have h3: "\<forall>j<kNumImus. j \<noteq> 3 \<longrightarrow>
           timestamp (acc (imu (old_sensors stuck_imu_cycle) ! j))
             \<noteq> timestamp (acc (imu (sensors stuck_imu_cycle) ! j))"
    by (simp add: sensors_example_defs kNumImus_def less_Suc_eq eval_nat_numeral)
  have h4: "timestamp (proxi_front (old_sensors stuck_imu_cycle))
              \<noteq> timestamp (proxi_front (sensors stuck_imu_cycle))"
    by (simp add: sensors_example_defs)
  have h5: "timestamp (proxi_back (old_sensors stuck_imu_cycle))
              \<noteq> timestamp (proxi_back (sensors stuck_imu_cycle))"
    by (simp add: sensors_example_defs)
  show ?thesis
    using h1 h2 stuck_imu_still_published [OF h1 h2 h3 h4 h5, of example_Data 2] by simp
qed





section \<open>Properties of navigation\<close>

text \<open>
  Claim C8. The emergency braking distance is the square of the velocity over
  \<open>2 \<cdot> 24\<close>, that is over \<open>48\<close>, and so within a relative error of \<open>10\<^sup>-\<^sup>6\<close> of it.
\<close>

theorem emergency_braking_distance:
  "getEmergencyBrakingDistance v = v\<^sup>2 / (2 * 24)
   \<and> getEmergencyBrakingDistance v = v\<^sup>2 / 48
   \<and> \<bar>getEmergencyBrakingDistance v - v\<^sup>2 / 48\<bar> \<le> 1 / 1000000 * \<bar>v\<^sup>2 / 48\<bar>"
  by (simp add: getEmergencyBrakingDistance_def kEmergencyDeceleration_def power2_eq_square)

end
